theory Spec2Isabelle
  imports Complex_Main "HOL-Library.AList" "HOL-Library.Sublist"
begin

section \<open>Values shared by the modules\<close>

text \<open>
  JSON values as they occur in token payloads, as \<open>json.loads\<close> delivers them: strings,
  integers (unbounded), floats (a finite float is the real number it denotes; \<open>NaN\<close> and
  the two infinities, which the parser also reads, are values of their own), booleans,
  \<open>null\<close>, lists and objects. A Python \<open>dict\<close> with string keys is an association list:
  \<open>AList.update\<close> replaces a key in place and appends a new one, as \<open>dict.update\<close> does,
  and \<open>map_of\<close> is \<open>dict.get\<close>.
\<close>

datatype jval =
    JStr string
  | JInt int
  | JFloat real
  | JNaN
  | JInfinity bool
  | JBool bool
  | JNull
  | JList "jval list"
  | JObj "(string \<times> jval) list"

type_synonym claims = "(string \<times> jval) list"

text \<open>
  Python exceptions, by class: the built-in ones this program can meet, those of the JWT
  library (\<open>ExpiredSignatureError\<close> and \<open>JWTClaimsError\<close> are subclasses of \<open>JWTError\<close>;
  \<open>JWSError\<close> and \<open>JWKError\<close> are not), pydantic's \<open>ValidationError\<close>, and any other
  subclass of \<open>Exception\<close> with its message.
\<close>

datatype py_exception =
    ValueError
  | TypeError
  | OverflowError
  | JWTError
  | ExpiredSignatureError
  | JWTClaimsError
  | JWSError
  | JWKError
  | ValidationError
  | PyException string

text \<open>
  Decimal rendering of an integer, as \<open>str(n)\<close> and the f-string \<open>f"{n}"\<close> produce it.
\<close>

definition digit_char :: "nat \<Rightarrow> char" where
  "digit_char d = ''0123456789'' ! (d mod 10)"

function str_nat :: "nat \<Rightarrow> string" where
  "str_nat n = (if n < 10 then [digit_char n] else str_nat (n div 10) @ [digit_char (n mod 10)])"
  by pat_completeness auto
termination
  by (relation "measure (\<lambda>n. n)") auto

declare str_nat.simps [simp del]

definition str_int :: "int \<Rightarrow> string" where
  "str_int i = (if i < 0 then CHR ''-'' # str_nat (nat (- i)) else str_nat (nat i))"

text \<open>\<open>str.lower()\<close> on the ASCII letters.\<close>

definition lower_char :: "char \<Rightarrow> char" where
  "lower_char c =
     (let n = (of_char c :: nat) in if 65 \<le> n \<and> n \<le> 90 then char_of (n + 32) else c)"

definition lower :: "string \<Rightarrow> string" where
  "lower s = map lower_char s"

text \<open>\<open>sep.join(xs)\<close>.\<close>

fun join :: "string \<Rightarrow> string list \<Rightarrow> string" where
  "join sep [] = []"
| "join sep [x] = x"
| "join sep (x # y # ys) = x @ sep @ join sep (y # ys)"

text \<open>\<open>sub in s\<close> on strings: \<open>sub\<close> occurs in \<open>s\<close> as a contiguous piece.\<close>

fun contains :: "string \<Rightarrow> string \<Rightarrow> bool" where
  "contains [] sub = (sub = [])"
| "contains (c # cs) sub = (prefix sub (c # cs) \<or> contains cs sub)"

text \<open>
  \<open>int(v)\<close> on a JSON value. An integer is itself, a boolean is 0 or 1, a finite float is
  truncated towards zero, \<open>NaN\<close> is a \<open>ValueError\<close>, an infinity an \<open>OverflowError\<close>,
  \<open>None\<close>, a list and a dict a \<open>TypeError\<close>. A string is read as a decimal literal:
  surrounding whitespace is dropped, one sign may lead, and single underscores may stand
  between digits; anything else is a \<open>ValueError\<close>. (Strings are taken as ASCII text.)
\<close>

definition py_isspace :: "char \<Rightarrow> bool" where
  "py_isspace c \<longleftrightarrow>
     List.member
       [CHR 0x09, CHR 0x0A, CHR 0x0B, CHR 0x0C, CHR 0x0D, CHR 0x1C, CHR 0x1D, CHR 0x1E, CHR 0x1F,
        CHR 0x20] c"

definition strip :: "string \<Rightarrow> string" where
  "strip s = rev (dropWhile py_isspace (rev (dropWhile py_isspace s)))"

definition digit_val :: "char \<Rightarrow> nat option" where
  "digit_val c =
     map_of
       [(CHR ''0'', 0), (CHR ''1'', 1), (CHR ''2'', 2), (CHR ''3'', 3), (CHR ''4'', 4),
        (CHR ''5'', 5), (CHR ''6'', 6), (CHR ''7'', 7), (CHR ''8'', 8), (CHR ''9'', 9)] c"

fun parse_digits :: "string \<Rightarrow> nat \<Rightarrow> bool \<Rightarrow> nat option" where
  "parse_digits [] acc after_digit = (if after_digit then Some acc else None)"
| "parse_digits (c # cs) acc after_digit =
     (case digit_val c of
        Some d \<Rightarrow> parse_digits cs (10 * acc + d) True
      | None \<Rightarrow>
          if c = CHR ''_'' \<and> after_digit then parse_digits cs acc False else None)"

definition int_of_str :: "string \<Rightarrow> int option" where
  "int_of_str s =
     (case strip s of
        [] \<Rightarrow> None
      | c # cs \<Rightarrow>
          if c = CHR ''-'' then map_option (\<lambda>n. - int n) (parse_digits cs 0 False)
          else if c = CHR ''+'' then map_option int (parse_digits cs 0 False)
          else map_option int (parse_digits (c # cs) 0 False))"

definition trunc :: "real \<Rightarrow> int" where
  "trunc x = (if 0 \<le> x then \<lfloor>x\<rfloor> else \<lceil>x\<rceil>)"

definition py_int :: "jval \<Rightarrow> py_exception + int" where
  "py_int v =
     (case v of
        JInt i \<Rightarrow> Inr i
      | JBool b \<Rightarrow> Inr (if b then 1 else 0)
      | JFloat x \<Rightarrow> Inr (trunc x)
      | JNaN \<Rightarrow> Inl ValueError
      | JInfinity positive \<Rightarrow> Inl OverflowError
      | JStr s \<Rightarrow> (case int_of_str s of Some i \<Rightarrow> Inr i | None \<Rightarrow> Inl ValueError)
      | JNull \<Rightarrow> Inl TypeError
      | JList xs \<Rightarrow> Inl TypeError
      | JObj kvs \<Rightarrow> Inl TypeError)"

section \<open>Dates and durations (the standard library's \<open>datetime\<close>)\<close>

text \<open>
  A naive UTC \<open>datetime\<close> is its number of microseconds since the epoch, a \<open>timedelta\<close> a
  number of microseconds; both have microsecond resolution. A \<open>datetime\<close> lies between
  0001-01-01 00:00:00 and 9999-12-31 23:59:59.999999, and a sum that leaves this range
  raises \<open>OverflowError\<close>; so does a \<open>timedelta\<close> of more than 999999999 days.
  \<open>timegm(d.utctimetuple())\<close> is the whole seconds since the epoch.
\<close>

type_synonym datetime = int

type_synonym timedelta = int

definition datetime_min :: datetime where
  "datetime_min = - 62135596800000000"

definition datetime_max :: datetime where
  "datetime_max = 253402300799999999"

definition datetime_add :: "datetime \<Rightarrow> timedelta \<Rightarrow> py_exception + datetime" where
  "datetime_add d delta =
     (if datetime_min \<le> d + delta \<and> d + delta \<le> datetime_max then Inr (d + delta)
      else Inl OverflowError)"

definition timedelta_of :: "int \<Rightarrow> py_exception + timedelta" where
  "timedelta_of microseconds =
     (if - 999999999 \<le> microseconds div 86400000000 \<and> microseconds div 86400000000 \<le> 999999999
      then Inr microseconds else Inl OverflowError)"

definition timedelta_minutes :: "int \<Rightarrow> py_exception + timedelta" where
  "timedelta_minutes m = timedelta_of (m * 60000000)"

definition timedelta_days :: "int \<Rightarrow> py_exception + timedelta" where
  "timedelta_days d = timedelta_of (d * 86400000000)"

definition timegm :: "datetime \<Rightarrow> int" where
  "timegm d = d div 1000000"

section \<open>Configuration (app/core/config.py)\<close>

text \<open>
  The two settings the security module reads. \<open>SECRET_KEY\<close> has no default in the source;
  \<open>ACCESS_TOKEN_EXPIRE_MINUTES\<close> defaults to 30.
\<close>

record settings =
  SECRET_KEY :: string
  ACCESS_TOKEN_EXPIRE_MINUTES :: int

definition default_settings :: "string \<Rightarrow> settings" where
  "default_settings key = \<lparr>SECRET_KEY = key, ACCESS_TOKEN_EXPIRE_MINUTES = 30\<rparr>"

section \<open>The JWT library, by its contract\<close>

text \<open>
  \<open>jose.jwt\<close> is an external library. A bearer string is either not a well-formed
  compact JWS (\<open>Garbage\<close>) or it is one: a header naming the algorithm, a JSON payload and
  a signature. The HS256 signature is modelled as an ideal MAC: the tag \<open>Mac k p\<close> is the
  one made under key \<open>k\<close> over payload \<open>p\<close>, so verification under the server's key succeeds
  exactly for a tag made under that key over the payload carried. A token whose payload was
  altered after signing carries the tag of the old payload.

  The library refuses as an HMAC secret a string that holds the armour of a public key or
  certificate: signing then raises \<open>JWSError\<close>, verifying \<open>JWKError\<close>.
\<close>

datatype mac = Mac string jval

datatype token = Jws string jval mac | Garbage string

definition invalid_strings :: "string list" where
  "invalid_strings =
     [''-----BEGIN PUBLIC KEY-----'', ''-----BEGIN RSA PUBLIC KEY-----'',
      ''-----BEGIN CERTIFICATE-----'', ''ssh-rsa'']"

definition hmac_key_ok :: "string \<Rightarrow> bool" where
  "hmac_key_ok key \<longleftrightarrow> \<not> list_ex (contains key) invalid_strings"

text \<open>
  \<open>jwt.encode(claims, key, algorithm)\<close> for an HMAC algorithm. The caller's datetimes
  under \<open>exp\<close>, \<open>iat\<close> and \<open>nbf\<close> arrive here already as whole seconds (\<open>timegm\<close>), the
  conversion the library applies first.
\<close>

definition jwt_encode :: "claims \<Rightarrow> string \<Rightarrow> string \<Rightarrow> py_exception + token" where
  "jwt_encode cs key alg =
     (if hmac_key_ok key then Inr (Jws alg (JObj cs) (Mac key (JObj cs))) else Inl JWSError)"

text \<open>
  Claim validation of \<open>jwt.decode\<close> with its default options, no audience, issuer,
  subject or access token given, and no leeway, in the library's order. \<open>now\<close> is the clock
  reading in whole seconds. A time claim goes through \<open>int(...)\<close>, whose \<open>ValueError\<close>
  becomes a \<open>JWTClaimsError\<close> while its other exceptions pass through. An \<open>aud\<close> claim,
  whatever its value, fails when no audience is given; so does an \<open>at_hash\<close> claim when no
  access token is given. The issuer is not checked when none is given.
\<close>

definition claim_int :: "jval \<Rightarrow> py_exception + int" where
  "claim_int v =
     (case py_int v of
        Inr i \<Rightarrow> Inr i
      | Inl e \<Rightarrow> Inl (if e = ValueError then JWTClaimsError else e))"

definition validate_iat :: "claims \<Rightarrow> py_exception option" where
  "validate_iat cs =
     (case map_of cs ''iat'' of
        None \<Rightarrow> None
      | Some v \<Rightarrow> (case claim_int v of Inl e \<Rightarrow> Some e | Inr iat \<Rightarrow> None))"

definition validate_nbf :: "claims \<Rightarrow> int \<Rightarrow> py_exception option" where
  "validate_nbf cs now =
     (case map_of cs ''nbf'' of
        None \<Rightarrow> None
      | Some v \<Rightarrow>
          (case claim_int v of
             Inl e \<Rightarrow> Some e
           | Inr nbf \<Rightarrow> if nbf > now then Some JWTClaimsError else None))"

definition validate_exp :: "claims \<Rightarrow> int \<Rightarrow> py_exception option" where
  "validate_exp cs now =
     (case map_of cs ''exp'' of
        None \<Rightarrow> None
      | Some v \<Rightarrow>
          (case claim_int v of
             Inl e \<Rightarrow> Some e
           | Inr expiry \<Rightarrow> if expiry < now then Some ExpiredSignatureError else None))"

definition validate_aud :: "claims \<Rightarrow> py_exception option" where
  "validate_aud cs =
     (case map_of cs ''aud'' of
        None \<Rightarrow> None
      | Some v \<Rightarrow> Some JWTClaimsError)"

definition validate_sub :: "claims \<Rightarrow> py_exception option" where
  "validate_sub cs =
     (case map_of cs ''sub'' of
        None \<Rightarrow> None
      | Some (JStr s) \<Rightarrow> None
      | Some other \<Rightarrow> Some JWTClaimsError)"

definition validate_jti :: "claims \<Rightarrow> py_exception option" where
  "validate_jti cs =
     (case map_of cs ''jti'' of
        None \<Rightarrow> None
      | Some (JStr s) \<Rightarrow> None
      | Some other \<Rightarrow> Some JWTClaimsError)"

definition validate_at_hash :: "claims \<Rightarrow> py_exception option" where
  "validate_at_hash cs =
     (case map_of cs ''at_hash'' of
        None \<Rightarrow> None
      | Some v \<Rightarrow> Some JWTClaimsError)"

text \<open>The first exception raised by a sequence of checks, if any.\<close>

fun first_raised :: "py_exception option list \<Rightarrow> py_exception option" where
  "first_raised [] = None"
| "first_raised (None # checks) = first_raised checks"
| "first_raised (Some e # checks) = Some e"

definition validate_claims :: "claims \<Rightarrow> int \<Rightarrow> py_exception option" where
  "validate_claims cs now =
     first_raised
       [validate_iat cs, validate_nbf cs now, validate_exp cs now, validate_aud cs,
        validate_sub cs, validate_jti cs, validate_at_hash cs]"

text \<open>
  \<open>jwt.decode(token, key, algorithms)\<close>: the token must parse, name an allowed
  algorithm, carry a signature that verifies under \<open>key\<close>, hold a JSON object, and pass
  claim validation.
\<close>

definition jwt_decode :: "token \<Rightarrow> string \<Rightarrow> string list \<Rightarrow> int \<Rightarrow> py_exception + claims" where
  "jwt_decode tok key algorithms now =
     (case tok of
        Garbage s \<Rightarrow> Inl JWTError
      | Jws alg body tag \<Rightarrow>
          if alg \<notin> set algorithms then Inl JWTError
          else if \<not> hmac_key_ok key then Inl JWKError
          else if tag \<noteq> Mac key body then Inl JWTError
          else (case body of
                  JObj cs \<Rightarrow>
                    (case validate_claims cs now of
                       Some e \<Rightarrow> Inl e
                     | None \<Rightarrow> Inr cs)
                | other \<Rightarrow> Inl JWTError))"

text \<open>
  \<open>jwt.get_unverified_claims\<close>: the payload a token carries, read without checking the
  signature or any claim.
\<close>

definition get_unverified_claims :: "token \<Rightarrow> claims option" where
  "get_unverified_claims tok =
     (case tok of Jws alg (JObj cs) tag \<Rightarrow> Some cs | other \<Rightarrow> None)"

section \<open>Security utilities (app/core/security.py)\<close>

text \<open>
  The password context (\<open>passlib\<close>, bcrypt) is an external library and enters as a
  parameter: \<open>pwd_verify plain hashed\<close> is what \<open>pwd_context.verify\<close> does on these
  arguments, either an exception (a malformed or unknown hash) or the boolean it returns;
  \<open>pwd_hash plain\<close> is what \<open>pwd_context.hash\<close> does with the salt it draws at this call,
  an exception or the hash.
\<close>

type_synonym pwd_verify_fn = "string \<Rightarrow> string \<Rightarrow> py_exception + bool"

type_synonym pwd_hash_fn = "string \<Rightarrow> py_exception + string"

definition ALGORITHM :: string where
  "ALGORITHM = ''HS256''"

definition verify_password :: "pwd_verify_fn \<Rightarrow> string \<Rightarrow> string \<Rightarrow> bool" where
  "verify_password pwd_verify plain_password hashed_password =
     (case pwd_verify plain_password hashed_password of
        Inr result \<Rightarrow> result
      | Inl e \<Rightarrow> False)"

definition get_password_hash :: "pwd_hash_fn \<Rightarrow> string \<Rightarrow> py_exception + string" where
  "get_password_hash pwd_hash password = pwd_hash password"

text \<open>
  Modelled from the spec: the \<open>TokenData\<close> schema (app/schemas/auth.py is not among the
  sources), a record whose only field is the subject email, a string. Constructing it from
  a value that is not a string is a pydantic \<open>ValidationError\<close>.
\<close>

datatype token_data = TokenData (token_email: string)

definition make_token_data :: "jval \<Rightarrow> py_exception + token_data" where
  "make_token_data v = (case v of JStr s \<Rightarrow> Inr (TokenData s) | other \<Rightarrow> Inl ValidationError)"

text \<open>
  \<open>now\<close> is \<open>datetime.utcnow()\<close> at the call (its readings within one call are taken as
  one instant) and \<open>expires_delta\<close> a \<open>timedelta\<close> or \<open>None\<close>. The test
  \<open>if expires_delta:\<close> is false for \<open>None\<close> and for the zero \<open>timedelta\<close>. Nothing is
  caught: an \<open>OverflowError\<close> of the date arithmetic and an exception of the library leave
  the function.
\<close>

definition create_access_token ::
  "settings \<Rightarrow> datetime \<Rightarrow> claims \<Rightarrow> timedelta option \<Rightarrow> py_exception + token" where
  "create_access_token st now data expires_delta =
     (let default_expire =
            (case timedelta_minutes (ACCESS_TOKEN_EXPIRE_MINUTES st) of
               Inl e \<Rightarrow> Inl e
             | Inr d \<Rightarrow> datetime_add now d)
      in case (case expires_delta of
                 Some d \<Rightarrow> if d \<noteq> 0 then datetime_add now d else default_expire
               | None \<Rightarrow> default_expire) of
           Inl e \<Rightarrow> Inl e
         | Inr expire \<Rightarrow>
             jwt_encode
               (AList.update ''iat'' (JInt (timegm now))
                  (AList.update ''exp'' (JInt (timegm expire)) data))
               (SECRET_KEY st) ALGORITHM)"

text \<open>
  \<open>now\<close> is the clock reading of the library in whole seconds. The three \<open>except\<close>
  clauses return \<open>None\<close> for every exception, the last one catching \<open>Exception\<close>;
  \<open>payload.get("sub")\<close> is \<open>None\<close> when the key is absent or null.
\<close>

definition decode_access_token :: "settings \<Rightarrow> int \<Rightarrow> token \<Rightarrow> token_data option" where
  "decode_access_token st now tok =
     (case jwt_decode tok (SECRET_KEY st) [ALGORITHM] now of
        Inl e \<Rightarrow> None
      | Inr payload \<Rightarrow>
          (case map_of payload ''sub'' of
             None \<Rightarrow> None
           | Some JNull \<Rightarrow> None
           | Some email \<Rightarrow>
               (case make_token_data email of
                  Inl e \<Rightarrow> None
                | Inr token_data \<Rightarrow> Some token_data)))"

definition create_refresh_token ::
  "settings \<Rightarrow> datetime \<Rightarrow> claims \<Rightarrow> timedelta option \<Rightarrow> py_exception + token" where
  "create_refresh_token st now data expires_delta =
     (case (case expires_delta of None \<Rightarrow> timedelta_days 7 | Some d \<Rightarrow> Inr d) of
        Inl e \<Rightarrow> Inl e
      | Inr delta \<Rightarrow>
          (case datetime_add now delta of
             Inl e \<Rightarrow> Inl e
           | Inr expire \<Rightarrow>
               jwt_encode
                 (AList.update ''type'' (JStr ''refresh'')
                    (AList.update ''exp'' (JInt (timegm expire)) data))
                 (SECRET_KEY st) ALGORITHM))"

section \<open>The credential store\<close>

text \<open>
  Modelled from the spec: the \<open>User\<close> model (app/models/user.py is not among the
  sources). A row has a unique identifier, an email that is unique across all rows, the
  password hash, an optional full name, the active flag and the privileged flag. The
  table is the list of rows in insertion order.
\<close>

record user =
  id' :: int
  email :: string
  hashed_password :: string
  full_name :: "string option"
  is_active :: bool
  is_superuser :: bool

text \<open>
  The constructor call \<open>User(email=..., ...)\<close> makes a transient object that has no key
  yet; the model writes 0 there, which the store never assigns.
\<close>

definition User :: "string \<Rightarrow> string \<Rightarrow> string option \<Rightarrow> bool \<Rightarrow> bool \<Rightarrow> user" where
  "User e h f a s =
     \<lparr>id' = 0, email = e, hashed_password = h, full_name = f, is_active = a, is_superuser = s\<rparr>"

text \<open>\<open>db.query(User).filter(User.email == e).first()\<close>: exact, case-sensitive equality.\<close>

definition first_by_email :: "user list \<Rightarrow> string \<Rightarrow> user option" where
  "first_by_email db e = List.find (\<lambda>u. email u = e) db"

datatype sa_error = IntegrityError

definition next_id :: "user list \<Rightarrow> int" where
  "next_id db = 1 + foldr max (map id' db) 0"

text \<open>
  \<open>db.add(row); db.commit(); db.refresh(row)\<close> against the table as it stands at the
  commit: the unique index on the email refuses a second row with the same email
  (\<open>IntegrityError\<close>, a \<open>SQLAlchemyError\<close>); otherwise the row is appended under a fresh key
  and read back.
\<close>

definition db_add_commit :: "user list \<Rightarrow> user \<Rightarrow> sa_error + (user list \<times> user)" where
  "db_add_commit db row =
     (if email row \<in> set (map email db) then Inl IntegrityError
      else (let stored = row\<lparr>id' := next_id db\<rparr> in Inr (db @ [stored], stored)))"

section \<open>Requests\<close>

text \<open>
  What the handlers read of a request: the URL path, the \<open>Authorization\<close> header split at
  its first space into scheme and credentials (absent when the header is), the principal
  stored on \<open>request.state\<close>, and the peer's host (absent when the server knows no peer).
\<close>

record request =
  url_path :: string
  authorization :: "(string \<times> token) option"
  state_user :: "user option"
  client_host :: "string option"

section \<open>Rate limiting (app/middleware/rate_limit.py)\<close>

text \<open>
  \<open>slowapi.util.get_remote_address\<close>: the peer's host, or \<open>127.0.0.1\<close> when the request
  has no peer or an empty host.
\<close>

definition get_remote_address :: "request \<Rightarrow> string" where
  "get_remote_address req =
     (case client_host req of
        None \<Rightarrow> ''127.0.0.1''
      | Some h \<Rightarrow> if h = [] then ''127.0.0.1'' else h)"

definition get_client_identifier :: "request \<Rightarrow> string" where
  "get_client_identifier req =
     (case state_user req of
        Some u \<Rightarrow> ''user:'' @ str_int (id' u)
      | None \<Rightarrow> ''ip:'' @ get_remote_address req)"

text \<open>
  The limiter, \<open>Limiter(key_func=get_client_identifier, default_limits=["100/minute",
  "1000/hour"], storage_uri="memory://", strategy="fixed-window")\<close>, is built from the
  external libraries \<open>slowapi\<close> and \<open>limits\<close>, modelled here by their contract.

  A rate limit item \<open>"n/minute"\<close> or \<open>"n/hour"\<close> allows \<open>amount\<close> hits per \<open>multiples\<close>
  units; its window lasts \<open>get_expiry\<close> seconds and its counter is stored under
  \<open>key_for\<close>, built from the client identifier and the scope of the route. The library
  names that scope by the request path or, in its later releases, by the qualified name of
  the endpoint function; each route here has one fixed path and one function, so the
  counters are the same either way, and the model writes the path.
\<close>

datatype granularity = Minute | Hour

record rate_limit_item =
  amount :: nat
  multiples :: nat
  granularity :: granularity

definition per_minute :: "nat \<Rightarrow> rate_limit_item" where
  "per_minute n = \<lparr>amount = n, multiples = 1, granularity = Minute\<rparr>"

definition per_hour :: "nat \<Rightarrow> rate_limit_item" where
  "per_hour n = \<lparr>amount = n, multiples = 1, granularity = Hour\<rparr>"

definition granularity_name :: "granularity \<Rightarrow> string" where
  "granularity_name g = (case g of Minute \<Rightarrow> ''minute'' | Hour \<Rightarrow> ''hour'')"

definition granularity_seconds :: "granularity \<Rightarrow> nat" where
  "granularity_seconds g = (case g of Minute \<Rightarrow> 60 | Hour \<Rightarrow> 3600)"

definition get_expiry :: "rate_limit_item \<Rightarrow> nat" where
  "get_expiry item = granularity_seconds (granularity item) * multiples item"

definition key_for :: "rate_limit_item \<Rightarrow> string list \<Rightarrow> string" where
  "key_for item identifiers =
     ''LIMITER/'' @
     join ''/''
       (identifiers @
        [str_nat (amount item), str_nat (multiples item), granularity_name (granularity item)])"

definition limit_str :: "rate_limit_item \<Rightarrow> string" where
  "limit_str item =
     str_nat (amount item) @ '' per '' @ str_nat (multiples item) @ '' '' @
     granularity_name (granularity item)"

text \<open>
  The in-memory storage: per key, the counter and the instant at which it expires. \<open>t\<close> is
  \<open>time.time()\<close>, in seconds. \<open>storage_get\<close> drops a key whose expiry has come;
  \<open>storage_incr\<close> does so too, then adds to the counter and, when the counter is new,
  starts its window at \<open>t\<close>. The fixed-window strategy admits a hit when the counter,
  after the increment, does not exceed the amount.
\<close>

type_synonym memory_storage = "string \<Rightarrow> (nat \<times> real) option"

definition storage_get :: "memory_storage \<Rightarrow> string \<Rightarrow> real \<Rightarrow> memory_storage" where
  "storage_get s key t =
     (case s key of
        None \<Rightarrow> s
      | Some (count, expiration) \<Rightarrow> if expiration \<le> t then s(key := None) else s)"

definition storage_incr ::
  "memory_storage \<Rightarrow> string \<Rightarrow> nat \<Rightarrow> real \<Rightarrow> nat \<Rightarrow> memory_storage \<times> nat" where
  "storage_incr s key expiry t cost =
     (let s' = storage_get s key t in
      case s' key of
        None \<Rightarrow> (s'(key \<mapsto> (cost, t + real expiry)), cost)
      | Some (count, expiration) \<Rightarrow>
          (s'(key \<mapsto> (count + cost, if count + cost = cost then t + real expiry else expiration)),
           count + cost))"

definition hit ::
  "memory_storage \<Rightarrow> real \<Rightarrow> rate_limit_item \<Rightarrow> string list \<Rightarrow> nat \<Rightarrow> memory_storage \<times> bool" where
  "hit s t item identifiers cost =
     (case storage_incr s (key_for item identifiers) (get_expiry item) t cost of
        (s', count) \<Rightarrow> (s', count \<le> amount item))"

text \<open>
  The check that the decorator \<open>@limiter.limit(...)\<close> runs before the endpoint: every
  limit in turn takes a hit under the client identifier and the route's scope, and the
  first one exceeded is the result (\<open>RateLimitExceeded\<close>). A limit set by the decorator
  overrides the defaults; the defaults join the route's limits only when none of these
  overrides them.
\<close>

record route_limit =
  limit_item :: rate_limit_item
  override_defaults :: bool

definition limiter_limit :: "rate_limit_item \<Rightarrow> route_limit" where
  "limiter_limit item = \<lparr>limit_item = item, override_defaults = True\<rparr>"

definition default_limits :: "rate_limit_item list" where
  "default_limits = [per_minute 100, per_hour 1000]"

fun evaluate_limits ::
  "memory_storage \<Rightarrow> real \<Rightarrow> request \<Rightarrow> string \<Rightarrow> rate_limit_item list
     \<Rightarrow> memory_storage \<times> rate_limit_item option" where
  "evaluate_limits s t req endpoint [] = (s, None)"
| "evaluate_limits s t req endpoint (item # items) =
     (if get_client_identifier req = [] \<or> endpoint = []
      then evaluate_limits s t req endpoint items
      else (case hit s t item [get_client_identifier req, endpoint] 1 of
              (s', admitted) \<Rightarrow>
                if admitted then evaluate_limits s' t req endpoint items else (s', Some item)))"

definition check_request_limit ::
  "memory_storage \<Rightarrow> real \<Rightarrow> request \<Rightarrow> route_limit list
     \<Rightarrow> memory_storage \<times> rate_limit_item option" where
  "check_request_limit s t req route_limits =
     (if url_path req = [] then (s, None)
      else evaluate_limits s t req (url_path req)
             (map limit_item route_limits @
              (if list_all (\<lambda>l. \<not> override_defaults l) route_limits then default_limits
               else [])))"

section \<open>Exceptions and responses\<close>

text \<open>
  Exceptions that leave an endpoint: \<open>HTTPException(status_code, detail, headers)\<close>, the
  framework's \<open>RequestValidationError\<close>, a \<open>SQLAlchemyError\<close>, the limiter's
  \<open>RateLimitExceeded\<close> with the limit that failed, or any other exception.
\<close>

datatype exn =
    HTTPException nat string "(string \<times> string) list"
  | RequestValidationError "string list"
  | SQLAlchemyError sa_error
  | RateLimitExceeded rate_limit_item
  | OtherException py_exception

record error_response =
  error :: string
  message :: string
  details :: "string list option"
  path :: string

text \<open>
  Modelled from the spec: the \<open>UserResponse\<close> and \<open>LoginResponse\<close> schemas
  (app/schemas/auth.py is not among the sources). The public representation of a user has
  the identifier, the email, the full name and the two flags, and no field for the
  password hash; a login response has the token, the token kind marker and the public
  representation of the user.
\<close>

record user_response =
  r_id :: int
  r_email :: string
  r_full_name :: "string option"
  r_is_active :: bool
  r_is_superuser :: bool

definition to_user_response :: "user \<Rightarrow> user_response" where
  "to_user_response u =
     \<lparr>r_id = id' u, r_email = email u, r_full_name = full_name u,
      r_is_active = is_active u, r_is_superuser = is_superuser u\<rparr>"

datatype content =
    ErrorContent error_response
  | RateLimitContent string
  | UserContent user_response
  | LoginContent token string user_response

record json_response =
  status_code :: nat
  content :: content

section \<open>Error handlers (app/middleware/error_handler.py)\<close>

definition http_exception_handler :: "request \<Rightarrow> nat \<Rightarrow> string \<Rightarrow> json_response" where
  "http_exception_handler req exc_status exc_detail =
     \<lparr>status_code = exc_status,
      content = ErrorContent
        \<lparr>error = ''HTTP_'' @ str_nat exc_status, message = exc_detail, details = None,
         path = url_path req\<rparr>\<rparr>"

definition validation_exception_handler :: "request \<Rightarrow> string list \<Rightarrow> json_response" where
  "validation_exception_handler req errors =
     \<lparr>status_code = 422,
      content = ErrorContent
        \<lparr>error = ''VALIDATION_ERROR'', message = ''Request validation failed'',
         details = Some errors, path = url_path req\<rparr>\<rparr>"

definition database_exception_handler :: "request \<Rightarrow> sa_error \<Rightarrow> json_response" where
  "database_exception_handler req exc =
     \<lparr>status_code = 500,
      content = ErrorContent
        \<lparr>error = ''DATABASE_ERROR'', message = ''A database error occurred'', details = None,
         path = url_path req\<rparr>\<rparr>"

definition general_exception_handler :: "request \<Rightarrow> py_exception \<Rightarrow> json_response" where
  "general_exception_handler req exc =
     \<lparr>status_code = 500,
      content = ErrorContent
        \<lparr>error = ''INTERNAL_SERVER_ERROR'', message = ''An unexpected error occurred'',
         details = None, path = url_path req\<rparr>\<rparr>"

text \<open>
  \<open>slowapi._rate_limit_exceeded_handler\<close>, registered by \<open>setup_rate_limiting\<close>: status
  429 and a body that names the limit.
\<close>

definition rate_limit_exceeded_handler :: "request \<Rightarrow> rate_limit_item \<Rightarrow> json_response" where
  "rate_limit_exceeded_handler req item =
     \<lparr>status_code = 429, content = RateLimitContent (''Rate limit exceeded: '' @ limit_str item)\<rparr>"

text \<open>
  The framework picks the handler registered for the exception's class: the
  registration of \<open>setup_rate_limiting\<close> and the four of \<open>setup_error_handlers\<close>.
\<close>

definition handle_exception :: "request \<Rightarrow> exn \<Rightarrow> json_response" where
  "handle_exception req exc =
     (case exc of
        HTTPException sc detail headers \<Rightarrow> http_exception_handler req sc detail
      | RequestValidationError errors \<Rightarrow> validation_exception_handler req errors
      | SQLAlchemyError e \<Rightarrow> database_exception_handler req e
      | RateLimitExceeded item \<Rightarrow> rate_limit_exceeded_handler req item
      | OtherException e \<Rightarrow> general_exception_handler req e)"

section \<open>Authentication endpoints (app/api/auth.py)\<close>

text \<open>
  \<open>oauth2_scheme = OAuth2PasswordBearer(...)\<close>, the framework's dependency that
  extracts the bearer credentials: no header, or a scheme other than \<open>bearer\<close> (compared in
  lower case), raises 401.
\<close>

definition oauth2_scheme :: "request \<Rightarrow> exn + token" where
  "oauth2_scheme req =
     (case authorization req of
        None \<Rightarrow> Inl (HTTPException 401 ''Not authenticated'' [(''WWW-Authenticate'', ''Bearer'')])
      | Some (scheme, param) \<Rightarrow>
          if lower scheme \<noteq> ''bearer''
          then Inl (HTTPException 401 ''Not authenticated'' [(''WWW-Authenticate'', ''Bearer'')])
          else Inr param)"

definition credentials_exception :: exn where
  "credentials_exception =
     HTTPException 401 ''Could not validate credentials'' [(''WWW-Authenticate'', ''Bearer'')]"

text \<open>
  The result is the exception raised, or the user together with the request as the
  function leaves it: \<open>request.state.user\<close> is set when a request was passed.
\<close>

definition get_current_user ::
  "settings \<Rightarrow> int \<Rightarrow> token \<Rightarrow> user list \<Rightarrow> request option \<Rightarrow> exn + (user \<times> request option)" where
  "get_current_user st now tok db req =
     (case decode_access_token st now tok of
        None \<Rightarrow> Inl credentials_exception
      | Some token_data \<Rightarrow>
          (case first_by_email db (token_email token_data) of
             None \<Rightarrow> Inl credentials_exception
           | Some u \<Rightarrow>
               (case req of
                  Some r \<Rightarrow> Inr (u, Some (r\<lparr>state_user := Some u\<rparr>))
                | None \<Rightarrow> Inr (u, None))))"

text \<open>
  Modelled from the spec: the \<open>UserCreate\<close> schema (app/schemas/auth.py is not among the
  sources): email, plaintext password, optional full name.
\<close>

datatype user_create =
  UserCreate (uc_email: string) (uc_password: string) (uc_full_name: "string option")

text \<open>
  The body of \<open>register\<close>. It reads the table at its query and writes it at its commit.
  \<open>between\<close> are the rows other requests committed in the meantime (none when requests do
  not overlap), so the commit runs against \<open>db @ between\<close>. The result is the table as the
  call leaves it and what the function returns or raises.
\<close>

definition register ::
  "pwd_hash_fn \<Rightarrow> user list \<Rightarrow> user list \<Rightarrow> user_create \<Rightarrow> user list \<times> (exn + user)" where
  "register pwd_hash db between user_in =
     (case first_by_email db (uc_email user_in) of
        Some existing_user \<Rightarrow> (db, Inl (HTTPException 400 ''Email already registered'' []))
      | None \<Rightarrow>
          (case get_password_hash pwd_hash (uc_password user_in) of
             Inl e \<Rightarrow> (db, Inl (OtherException e))
           | Inr hashed \<Rightarrow>
               (case db_add_commit (db @ between)
                       (User (uc_email user_in) hashed (uc_full_name user_in) True False) of
                  Inl e \<Rightarrow> (db @ between, Inl (SQLAlchemyError e))
                | Inr (db', stored) \<Rightarrow> (db', Inr stored))))"

record login_form =
  username :: string
  password :: string

record login_result =
  access_token :: token
  token_type :: string
  login_user :: user

text \<open>The body of \<open>login\<close>; \<open>now\<close> is \<open>datetime.utcnow()\<close> when the token is made.\<close>

definition login ::
  "pwd_verify_fn \<Rightarrow> settings \<Rightarrow> datetime \<Rightarrow> user list \<Rightarrow> login_form \<Rightarrow> exn + login_result" where
  "login pwd_verify st now db form_data =
     (case first_by_email db (username form_data) of
        None \<Rightarrow> Inl (HTTPException 401 ''Incorrect email or password'' [])
      | Some u \<Rightarrow>
          if \<not> verify_password pwd_verify (password form_data) (hashed_password u)
          then Inl (HTTPException 401 ''Incorrect email or password'' [])
          else if \<not> is_active u
          then Inl (HTTPException 403 ''Inactive user'' [])
          else (case create_access_token st now [(''sub'', JStr (email u))] None of
                  Inl e \<Rightarrow> Inl (OtherException e)
                | Inr tok \<Rightarrow>
                    Inr \<lparr>access_token = tok, token_type = ''bearer'', login_user = u\<rparr>))"

definition read_current_user :: "user \<Rightarrow> user" where
  "read_current_user current_user = current_user"

text \<open>
  The three routes as the framework serves them: dependencies first, then the endpoint
  (for \<open>register\<close> and \<open>login\<close> behind the check of their decorator
  \<open>@limiter.limit("5/minute")\<close> and \<open>@limiter.limit("10/minute")\<close>), the result through
  the route's response model with the route's status code, an exception through the error
  handlers. \<open>s\<close> is the limiter's storage and \<open>t\<close> the reading of \<open>time.time()\<close> at the
  check; the storage is returned as the request leaves it. \<open>GET /auth/me\<close> carries no
  decorator, and the application installs no rate-limiting middleware, so no limit is
  checked there.
\<close>

definition post_register ::
  "memory_storage \<Rightarrow> real \<Rightarrow> pwd_hash_fn \<Rightarrow> user list \<Rightarrow> user list \<Rightarrow> request \<Rightarrow> user_create
     \<Rightarrow> memory_storage \<times> user list \<times> json_response" where
  "post_register s t pwd_hash db between req user_in =
     (case check_request_limit s t req [limiter_limit (per_minute 5)] of
        (s', Some failed_limit) \<Rightarrow> (s', db, handle_exception req (RateLimitExceeded failed_limit))
      | (s', None) \<Rightarrow>
          (case register pwd_hash db between user_in of
             (db', Inl e) \<Rightarrow> (s', db', handle_exception req e)
           | (db', Inr u) \<Rightarrow>
               (s', db', \<lparr>status_code = 201, content = UserContent (to_user_response u)\<rparr>)))"

definition post_login ::
  "memory_storage \<Rightarrow> real \<Rightarrow> pwd_verify_fn \<Rightarrow> settings \<Rightarrow> datetime \<Rightarrow> user list \<Rightarrow> request
     \<Rightarrow> login_form \<Rightarrow> memory_storage \<times> json_response" where
  "post_login s t pwd_verify st now db req form_data =
     (case check_request_limit s t req [limiter_limit (per_minute 10)] of
        (s', Some failed_limit) \<Rightarrow> (s', handle_exception req (RateLimitExceeded failed_limit))
      | (s', None) \<Rightarrow>
          (case login pwd_verify st now db form_data of
             Inl e \<Rightarrow> (s', handle_exception req e)
           | Inr res \<Rightarrow>
               (s', \<lparr>status_code = 200,
                     content = LoginContent (access_token res) (token_type res)
                                 (to_user_response (login_user res))\<rparr>)))"

definition get_me :: "settings \<Rightarrow> int \<Rightarrow> user list \<Rightarrow> request \<Rightarrow> json_response" where
  "get_me st now db req =
     (case oauth2_scheme req of
        Inl e \<Rightarrow> handle_exception req e
      | Inr tok \<Rightarrow>
          (case get_current_user st now tok db (Some req) of
             Inl e \<Rightarrow> handle_exception req e
           | Inr (current_user, req') \<Rightarrow>
               \<lparr>status_code = 200,
                content = UserContent (to_user_response (read_current_user current_user))\<rparr>))"

section \<open>Test fixtures (tests/conftest.py, tests/test_auth.py)\<close>

text \<open>
  A small password context to run the endpoints on concrete inputs: a hash is the
  marker \<open>$2b$\<close> followed by the plaintext, and verifying against a string without the
  marker raises, as the library does on a hash it cannot identify.
\<close>

definition stub_pwd_hash :: pwd_hash_fn where
  "stub_pwd_hash p = Inr (''$2b$'' @ p)"

definition stub_pwd_verify :: pwd_verify_fn where
  "stub_pwd_verify plain hashed =
     (if take 4 hashed = ''$2b$'' then Inr (drop 4 hashed = plain)
      else Inl (PyException ''hash could not be identified''))"

definition test_settings :: settings where
  "test_settings = default_settings ''test-secret''"

definition test_user :: user where
  "test_user =
     \<lparr>id' = 1, email = ''test@example.com'', hashed_password = ''$2b$testpassword123'',
      full_name = Some ''Test User'', is_active = True, is_superuser = False\<rparr>"

definition inactive_user :: user where
  "inactive_user =
     \<lparr>id' = 2, email = ''inactive@example.com'', hashed_password = ''$2b$password123'',
      full_name = Some ''Inactive User'', is_active = False, is_superuser = False\<rparr>"

definition test_request :: request where
  "test_request =
     \<lparr>url_path = ''/api/auth/me'', authorization = None, state_user = None,
      client_host = Some ''203.0.113.7''\<rparr>"

text \<open>The token that \<open>test_settings\<close> signs over a payload.\<close>

definition test_token :: "claims \<Rightarrow> token" where
  "test_token cs = Jws ''HS256'' (JObj cs) (Mac ''test-secret'' (JObj cs))"

definition login_request :: request where
  "login_request = test_request\<lparr>url_path := ''/api/auth/login''\<rparr>"

definition register_request :: request where
  "register_request = test_request\<lparr>url_path := ''/api/auth/register''\<rparr>"

definition unknown_login :: login_form where
  "unknown_login = \<lparr>username = ''nonexistent@example.com'', password = ''password123''\<rparr>"

text \<open>
  The limiter's storage after \<open>n\<close> logins with unknown credentials, all from the fixture's
  client and all at second 100 of the limiter's clock, starting from an empty storage.
\<close>

primrec storage_after_logins :: "nat \<Rightarrow> memory_storage" where
  "storage_after_logins 0 = Map.empty"
| "storage_after_logins (Suc n) =
     fst (post_login (storage_after_logins n) 100 stub_pwd_verify test_settings 100000000
            [test_user] login_request unknown_login)"

text \<open>Settings whose token lifetime is more minutes than a \<open>timedelta\<close> can hold.\<close>

definition long_lived_settings :: settings where
  "long_lived_settings =
     \<lparr>SECRET_KEY = ''test-secret'', ACCESS_TOKEN_EXPIRE_MINUTES = 2000000000000000\<rparr>"

text \<open>The storage key of the login limit for the fixture's client.\<close>

definition login_key :: string where
  "login_key = ''LIMITER/ip:203.0.113.7//api/auth/login/10/1/minute''"

text \<open>
  A stored user whose hash the password context cannot identify, and a password context
  that rejects every password without raising.
\<close>

definition legacy_user :: user where
  "legacy_user =
     \<lparr>id' = 3, email = ''legacy@example.com'', hashed_password = ''not-a-bcrypt-hash'',
      full_name = None, is_active = True, is_superuser = False\<rparr>"

definition never_verify :: pwd_verify_fn where
  "never_verify plain hashed = Inr False"

text \<open>
  A password hasher on the pattern of the fixture's verifier that, as bcrypt does, refuses
  a password holding a NUL character.
\<close>

definition strict_pwd_hash :: pwd_hash_fn where
  "strict_pwd_hash p =
     (if CHR 0x00 \<in> set p then Inl (PyException ''password contains NUL'')
      else Inr (''$2b$'' @ p))"

definition new_user_in :: user_create where
  "new_user_in = UserCreate ''newuser@example.com'' ''securepassword123'' (Some ''New User'')"

definition duplicate_user_in :: user_create where
  "duplicate_user_in = UserCreate ''test@example.com'' ''password123'' (Some ''Duplicate User'')"

definition new_user :: user where
  "new_user =
     \<lparr>id' = 2, email = ''newuser@example.com'', hashed_password = ''$2b$securepassword123'',
      full_name = Some ''New User'', is_active = True, is_superuser = False\<rparr>"

text \<open>The storage key of the registration limit for the fixture's client.\<close>

definition register_key :: string where
  "register_key = ''LIMITER/ip:203.0.113.7//api/auth/register/5/1/minute''"

text \<open>
  The limiter's storage after \<open>n\<close> registrations of the fixture user's email, all from the
  fixture's client and all at second 100 of the limiter's clock, starting from an empty
  storage.
\<close>

primrec storage_after_registrations :: "nat \<Rightarrow> memory_storage" where
  "storage_after_registrations 0 = Map.empty"
| "storage_after_registrations (Suc n) =
     fst (post_register (storage_after_registrations n) 100 strict_pwd_hash [test_user] []
            register_request duplicate_user_in)"

definition nul_password_in :: user_create where
  "nul_password_in =
     UserCreate ''newuser@example.com'' (''secure'' @ [CHR 0x00] @ ''password123'') None"



section \<open>Evaluation of the fixtures\<close>

lemma hmac_key_ok_test_secret: "hmac_key_ok ''test-secret''"
  by (simp add: hmac_key_ok_def invalid_strings_def)

lemma lower_Bearer: "lower ''Bearer'' = ''bearer''"
  by code_simp

lemma str_nat_401: "str_nat 401 = ''401''"
  by code_simp

lemma str_nat_403: "str_nat 403 = ''403''"
  by code_simp

lemma str_nat_400: "str_nat 400 = ''400''"
  by code_simp

lemmas eval_time_defs =
  datetime_add_def datetime_min_def datetime_max_def timedelta_of_def timedelta_minutes_def
  timedelta_days_def timegm_def

lemmas eval_validate_defs =
  validate_claims_def validate_iat_def validate_nbf_def validate_exp_def validate_aud_def
  validate_sub_def validate_jti_def validate_at_hash_def claim_int_def py_int_def

lemmas eval_token_defs =
  decode_access_token_def create_access_token_def create_refresh_token_def jwt_decode_def
  jwt_encode_def eval_validate_defs eval_time_defs make_token_data_def ALGORITHM_def
  test_settings_def default_settings_def test_token_def hmac_key_ok_test_secret Let_def

lemma fresh_token_eq:
  "create_access_token test_settings 100000000 [(''sub'', JStr e)] None
     = Inr (test_token [(''sub'', JStr e), (''exp'', JInt 1900), (''iat'', JInt 100)])"
  by (simp add: eval_token_defs)

lemma expired_token_eq:
  "create_access_token test_settings 100000000 [(''sub'', JStr e)] (Some (- 1000000))
     = Inr (test_token [(''sub'', JStr e), (''exp'', JInt 99), (''iat'', JInt 100)])"
  by (simp add: eval_token_defs)

lemma refresh_token_eq:
  "create_refresh_token test_settings 100000000 [(''sub'', JStr e)] None
     = Inr (test_token [(''sub'', JStr e), (''exp'', JInt 604900), (''type'', JStr ''refresh'')])"
  by (simp add: eval_token_defs)

lemma fresh_token_decodes:
  "decode_access_token test_settings 100
     (test_token [(''sub'', JStr e), (''exp'', JInt 1900), (''iat'', JInt 100)])
     = Some (TokenData e)"
  by (simp add: eval_token_defs)

section \<open>Token decoding\<close>

lemma first_raised_None_iff: "first_raised checks = None \<longleftrightarrow> (\<forall>c \<in> set checks. c = None)"
  by (induction checks rule: first_raised.induct) simp_all

lemma validate_claims_None_iff:
  "validate_claims cs now = None \<longleftrightarrow>
     validate_iat cs = None \<and> validate_nbf cs now = None \<and> validate_exp cs now = None
     \<and> validate_aud cs = None \<and> validate_sub cs = None \<and> validate_jti cs = None
     \<and> validate_at_hash cs = None"
  by (simp add: validate_claims_def first_raised_None_iff)

lemma jwt_decode_Inr_iff:
  "jwt_decode tok key algs now = Inr cs \<longleftrightarrow>
     (\<exists>alg. alg \<in> set algs \<and> hmac_key_ok key \<and> tok = Jws alg (JObj cs) (Mac key (JObj cs)) \<and>
            validate_claims cs now = None)"
  by (auto simp: jwt_decode_def split: token.splits jval.splits option.splits if_splits)

lemma decode_access_token_Some_iff:
  "decode_access_token st now tok = Some td \<longleftrightarrow>
     (\<exists>cs. tok = Jws ALGORITHM (JObj cs) (Mac (SECRET_KEY st) (JObj cs)) \<and>
           hmac_key_ok (SECRET_KEY st) \<and>
           validate_claims cs now = None \<and> map_of cs ''sub'' = Some (JStr (token_email td)))"
proof -
  have "decode_access_token st now tok = Some td \<longleftrightarrow>
     (\<exists>cs. jwt_decode tok (SECRET_KEY st) [ALGORITHM] now = Inr cs \<and>
           map_of cs ''sub'' = Some (JStr (token_email td)))"
    by (cases td)
      (auto simp: decode_access_token_def make_token_data_def
        split: sum.splits option.splits jval.splits)
  then show ?thesis
    by (auto simp: jwt_decode_Inr_iff)
qed

lemma decode_garbage: "decode_access_token st now (Garbage s) = None"
  by (simp add: decode_access_token_def jwt_decode_def)

lemma decode_bad_signature:
  "tag \<noteq> Mac (SECRET_KEY st) body \<Longrightarrow> decode_access_token st now (Jws alg body tag) = None"
  by (simp add: decode_access_token_def jwt_decode_def)

lemma decode_not_object:
  "\<forall>cs. body \<noteq> JObj cs \<Longrightarrow> decode_access_token st now (Jws alg body tag) = None"
  by (cases body) (simp_all add: decode_access_token_def jwt_decode_def)

lemma decode_missing_sub:
  "map_of cs ''sub'' = None \<Longrightarrow> decode_access_token st now (Jws alg (JObj cs) tag) = None"
  by (simp add: decode_access_token_def jwt_decode_def split: option.splits)

lemma decode_invalid_claims:
  "validate_claims cs now \<noteq> None \<Longrightarrow> decode_access_token st now (Jws alg (JObj cs) tag) = None"
  by (auto simp: decode_access_token_def jwt_decode_def split: option.splits)

lemma validate_exp_JInt:
  "map_of cs ''exp'' = Some (JInt e) \<Longrightarrow>
     validate_exp cs now = (if e < now then Some ExpiredSignatureError else None)"
  by (simp add: validate_exp_def claim_int_def py_int_def)

lemma decode_expired:
  "map_of cs ''exp'' = Some (JInt e) \<Longrightarrow> e < now \<Longrightarrow>
     decode_access_token st now (Jws alg (JObj cs) tag) = None"
  by (rule decode_invalid_claims) (simp add: validate_claims_None_iff validate_exp_JInt)

text \<open>
  C4. For every token, \<open>decode_access_token\<close> returns the one invalid outcome \<open>None\<close>
  (it is a total function into an option: nothing is raised to the caller) when the token
  does not parse, when the signature does not match, when the payload is not a JSON object,
  when the \<open>sub\<close> claim is missing, and when \<open>exp\<close> lies in the past. A successful decode
  comes from a token signed under the server's key, unexpired, and returns the subject the
  payload carries.
\<close>

theorem decode_access_token_invalid_or_subject:
  "decode_access_token st now (Garbage s) = None
   \<and> (tag \<noteq> Mac (SECRET_KEY st) body \<longrightarrow> decode_access_token st now (Jws alg body tag) = None)
   \<and> ((\<forall>cs. body \<noteq> JObj cs) \<longrightarrow> decode_access_token st now (Jws alg body tag) = None)
   \<and> (map_of cs ''sub'' = None \<longrightarrow> decode_access_token st now (Jws alg (JObj cs) tag) = None)
   \<and> (map_of cs ''exp'' = Some (JInt e) \<and> e < now \<longrightarrow>
        decode_access_token st now (Jws alg (JObj cs) tag) = None)
   \<and> (decode_access_token st now tok = Some td \<longrightarrow>
        (\<exists>cs'. tok = Jws ALGORITHM (JObj cs') (Mac (SECRET_KEY st) (JObj cs'))
           \<and> map_of cs' ''sub'' = Some (JStr (token_email td))
           \<and> (\<forall>e'. map_of cs' ''exp'' = Some (JInt e') \<longrightarrow> now \<le> e')))"
proof -
  have h: "\<exists>cs'. tok = Jws ALGORITHM (JObj cs') (Mac (SECRET_KEY st) (JObj cs'))
           \<and> map_of cs' ''sub'' = Some (JStr (token_email td))
           \<and> (\<forall>e'. map_of cs' ''exp'' = Some (JInt e') \<longrightarrow> now \<le> e')"
    if "decode_access_token st now tok = Some td"
  proof -
    from that obtain cs' where cs':
      "tok = Jws ALGORITHM (JObj cs') (Mac (SECRET_KEY st) (JObj cs'))"
      "validate_claims cs' now = None" "map_of cs' ''sub'' = Some (JStr (token_email td))"
      by (auto simp: decode_access_token_Some_iff)
    from cs'(2) have "validate_exp cs' now = None"
      by (simp add: validate_claims_None_iff)
    then have "\<forall>e'. map_of cs' ''exp'' = Some (JInt e') \<longrightarrow> now \<le> e'"
      by (auto simp: validate_exp_JInt split: if_splits)
    with cs' show ?thesis by blast
  qed
  show ?thesis
    by (intro conjI impI)
      (simp_all add: decode_garbage decode_bad_signature decode_not_object decode_missing_sub
        decode_expired h)
qed

theorem decode_access_token_invalid_or_subject_witness:
  "decode_access_token test_settings 100 (Garbage ''invalid_token_here'') = None
   \<and> decode_access_token test_settings 100
       (Jws ALGORITHM (JObj [(''sub'', JStr ''test@example.com'')])
          (Mac ''other-secret'' (JObj [(''sub'', JStr ''test@example.com'')]))) = None
   \<and> decode_access_token test_settings 100
       (Jws ALGORITHM (JStr ''sub'') (Mac ''test-secret'' (JStr ''sub''))) = None
   \<and> decode_access_token test_settings 100 (test_token [(''exp'', JInt 200)]) = None
   \<and> decode_access_token test_settings 100
       (test_token [(''sub'', JStr ''test@example.com''), (''exp'', JInt 99), (''iat'', JInt 100)])
      = None
   \<and> (\<exists>cs'. test_token
              [(''sub'', JStr ''test@example.com''), (''exp'', JInt 1900), (''iat'', JInt 100)]
            = Jws ALGORITHM (JObj cs') (Mac (SECRET_KEY test_settings) (JObj cs'))
          \<and> map_of cs' ''sub'' = Some (JStr ''test@example.com'')
          \<and> (\<forall>e'. map_of cs' ''exp'' = Some (JInt e') \<longrightarrow> 100 \<le> e'))"
proof -
  let ?tok = "test_token
      [(''sub'', JStr ''test@example.com''), (''exp'', JInt 1900), (''iat'', JInt 100)]"
  have ok: "decode_access_token test_settings 100 ?tok = Some (TokenData ''test@example.com'')"
    by (rule fresh_token_decodes)
  have bad_key: "Mac ''other-secret'' (JObj [(''sub'', JStr ''test@example.com'')])
      \<noteq> Mac (SECRET_KEY test_settings) (JObj [(''sub'', JStr ''test@example.com'')])"
    by (simp add: test_settings_def default_settings_def)
  have not_obj: "\<forall>cs. JStr ''sub'' \<noteq> JObj cs"
    by simp
  have no_sub: "map_of [(''exp'', JInt 200)] ''sub'' = None"
    by simp
  have expired: "map_of [(''sub'', JStr ''test@example.com''), (''exp'', JInt 99), (''iat'', JInt 100)]
      ''exp'' = Some (JInt 99) \<and> (99 :: int) < 100"
    by simp
  note t = decode_access_token_invalid_or_subject
  show ?thesis
    using t [of test_settings 100 "''invalid_token_here''"]
      t [where st = test_settings and now = 100 and tag = "Mac ''other-secret'' (JObj [(''sub'', JStr ''test@example.com'')])"
          and body = "JObj [(''sub'', JStr ''test@example.com'')]" and alg = ALGORITHM] bad_key
      t [where st = test_settings and now = 100 and body = "JStr ''sub''" and alg = ALGORITHM
          and tag = "Mac ''test-secret'' (JStr ''sub'')"] not_obj
      t [where st = test_settings and now = 100 and cs = "[(''exp'', JInt 200)]" and alg = ALGORITHM
          and tag = "Mac ''test-secret'' (JObj [(''exp'', JInt 200)])"] no_sub
      t [where st = test_settings and now = 100 and e = 99 and alg = ALGORITHM
          and cs = "[(''sub'', JStr ''test@example.com''), (''exp'', JInt 99), (''iat'', JInt 100)]"
          and tag = "Mac ''test-secret'' (JObj [(''sub'', JStr ''test@example.com''), (''exp'', JInt 99), (''iat'', JInt 100)])"] expired
      t [where st = test_settings and now = 100 and tok = ?tok and td = "TokenData ''test@example.com''"] ok
    by (simp add: test_token_def ALGORITHM_def test_settings_def default_settings_def)
qed

section \<open>Refresh tokens\<close>

lemma map_of_update_other:
  "k' \<noteq> k \<Longrightarrow> map_of (AList.update k v cs) k' = map_of cs k'"
  by (simp add: update_conv')

lemma validate_claims_update_type:
  "validate_claims (AList.update ''type'' v cs) now = validate_claims cs now"
  by (simp add: validate_claims_def validate_iat_def validate_nbf_def validate_exp_def
      validate_aud_def validate_sub_def validate_jti_def validate_at_hash_def map_of_update_other)

lemma decode_ignores_type:
  "decode_access_token st now
     (Jws alg (JObj (AList.update ''type'' v cs)) (Mac key (JObj (AList.update ''type'' v cs))))
   = decode_access_token st now (Jws alg (JObj cs) (Mac key (JObj cs)))"
  by (cases "validate_claims cs now")
    (simp_all add: decode_access_token_def jwt_decode_def validate_claims_update_type
      map_of_update_other)

lemma create_refresh_token_Inr:
  "create_refresh_token st now data expires_delta = Inr tok \<Longrightarrow>
     \<exists>expire. tok =
       Jws ALGORITHM
         (JObj (AList.update ''type'' (JStr ''refresh'') (AList.update ''exp'' (JInt expire) data)))
         (Mac (SECRET_KEY st)
            (JObj (AList.update ''type'' (JStr ''refresh'')
                     (AList.update ''exp'' (JInt expire) data))))"
  by (auto simp: create_refresh_token_def jwt_encode_def split: option.splits sum.splits if_splits)

lemma get_current_user_found:
  "decode_access_token st now tok = Some td \<Longrightarrow> first_by_email db (token_email td) = Some u \<Longrightarrow>
     get_current_user st now tok db req =
       Inr (u, map_option (\<lambda>r. r\<lparr>state_user := Some u\<rparr>) req)"
  by (simp add: get_current_user_def split: option.splits)

lemma get_current_user_same_decode:
  "decode_access_token st now tok = decode_access_token st now tok' \<Longrightarrow>
     get_current_user st now tok db req = get_current_user st now tok' db req"
  by (simp add: get_current_user_def)

lemma get_me_same_decode:
  "decode_access_token st now tok = decode_access_token st now tok' \<Longrightarrow>
     get_me st now db (r\<lparr>authorization := Some (scheme, tok)\<rparr>)
       = get_me st now db (r\<lparr>authorization := Some (scheme, tok')\<rparr>)"
  by (simp add: get_me_def oauth2_scheme_def get_current_user_def handle_exception_def
      http_exception_handler_def credentials_exception_def split: option.splits)

text \<open>
  C1, as the code has it. A token made by \<open>create_refresh_token\<close> carries the tag
  \<open>type = refresh\<close> in its payload, but the tag does not keep the token from being used as an
  access token: \<open>decode_access_token\<close>, \<open>get_current_user\<close> and \<open>GET /auth/me\<close> never
  read it, and give the refresh token, presented as a bearer access token, the very result
  they give the token signed over the same payload without the tag.
\<close>

theorem refresh_token_tag_not_read:
  "create_refresh_token st now data expires_delta = Inr tok \<longrightarrow>
     (\<exists>cs. get_unverified_claims tok = Some cs \<and> map_of cs ''type'' = Some (JStr ''refresh''))
     \<and> (\<exists>expire.
          tok = Jws ALGORITHM
                  (JObj (AList.update ''type'' (JStr ''refresh'')
                           (AList.update ''exp'' (JInt expire) data)))
                  (Mac (SECRET_KEY st)
                     (JObj (AList.update ''type'' (JStr ''refresh'')
                              (AList.update ''exp'' (JInt expire) data))))
          \<and> decode_access_token st now' tok
              = decode_access_token st now'
                  (Jws ALGORITHM (JObj (AList.update ''exp'' (JInt expire) data))
                     (Mac (SECRET_KEY st) (JObj (AList.update ''exp'' (JInt expire) data))))
          \<and> get_current_user st now' tok db req
              = get_current_user st now'
                  (Jws ALGORITHM (JObj (AList.update ''exp'' (JInt expire) data))
                     (Mac (SECRET_KEY st) (JObj (AList.update ''exp'' (JInt expire) data))))
                  db req
          \<and> get_me st now' db (r\<lparr>authorization := Some (scheme, tok)\<rparr>)
              = get_me st now' db
                  (r\<lparr>authorization := Some (scheme,
                       Jws ALGORITHM (JObj (AList.update ''exp'' (JInt expire) data))
                         (Mac (SECRET_KEY st)
                            (JObj (AList.update ''exp'' (JInt expire) data))))\<rparr>))"
proof
  assume "create_refresh_token st now data expires_delta = Inr tok"
  then obtain expire where tok:
    "tok = Jws ALGORITHM
       (JObj (AList.update ''type'' (JStr ''refresh'') (AList.update ''exp'' (JInt expire) data)))
       (Mac (SECRET_KEY st)
          (JObj (AList.update ''type'' (JStr ''refresh'')
                   (AList.update ''exp'' (JInt expire) data))))"
    using create_refresh_token_Inr by blast
  let ?untagged = "Jws ALGORITHM (JObj (AList.update ''exp'' (JInt expire) data))
      (Mac (SECRET_KEY st) (JObj (AList.update ''exp'' (JInt expire) data)))"
  have tagged: "\<exists>cs. get_unverified_claims tok = Some cs
      \<and> map_of cs ''type'' = Some (JStr ''refresh'')"
    by (simp add: tok get_unverified_claims_def update_conv')
  have same: "decode_access_token st now' tok = decode_access_token st now' ?untagged"
    unfolding tok by (rule decode_ignores_type)
  have user: "get_current_user st now' tok db req = get_current_user st now' ?untagged db req"
    using same by (rule get_current_user_same_decode)
  have me: "get_me st now' db (r\<lparr>authorization := Some (scheme, tok)\<rparr>)
      = get_me st now' db (r\<lparr>authorization := Some (scheme, ?untagged)\<rparr>)"
    using same by (rule get_me_same_decode)
  from tagged tok same user me
  show "(\<exists>cs. get_unverified_claims tok = Some cs \<and> map_of cs ''type'' = Some (JStr ''refresh''))
     \<and> (\<exists>expire.
          tok = Jws ALGORITHM
                  (JObj (AList.update ''type'' (JStr ''refresh'')
                           (AList.update ''exp'' (JInt expire) data)))
                  (Mac (SECRET_KEY st)
                     (JObj (AList.update ''type'' (JStr ''refresh'')
                              (AList.update ''exp'' (JInt expire) data))))
          \<and> decode_access_token st now' tok
              = decode_access_token st now'
                  (Jws ALGORITHM (JObj (AList.update ''exp'' (JInt expire) data))
                     (Mac (SECRET_KEY st) (JObj (AList.update ''exp'' (JInt expire) data))))
          \<and> get_current_user st now' tok db req
              = get_current_user st now'
                  (Jws ALGORITHM (JObj (AList.update ''exp'' (JInt expire) data))
                     (Mac (SECRET_KEY st) (JObj (AList.update ''exp'' (JInt expire) data))))
                  db req
          \<and> get_me st now' db (r\<lparr>authorization := Some (scheme, tok)\<rparr>)
              = get_me st now' db
                  (r\<lparr>authorization := Some (scheme,
                       Jws ALGORITHM (JObj (AList.update ''exp'' (JInt expire) data))
                         (Mac (SECRET_KEY st)
                            (JObj (AList.update ''exp'' (JInt expire) data))))\<rparr>))"
    by blast
qed

theorem refresh_token_tag_not_read_witness:
  "create_refresh_token test_settings 100000000 [(''sub'', JStr ''test@example.com'')] None
     = Inr (test_token [(''sub'', JStr ''test@example.com''), (''exp'', JInt 604900),
                        (''type'', JStr ''refresh'')])
   \<and> (\<exists>cs. get_unverified_claims
              (test_token [(''sub'', JStr ''test@example.com''), (''exp'', JInt 604900),
                           (''type'', JStr ''refresh'')]) = Some cs
          \<and> map_of cs ''type'' = Some (JStr ''refresh''))
   \<and> decode_access_token test_settings 101
        (test_token [(''sub'', JStr ''test@example.com''), (''exp'', JInt 604900),
                     (''type'', JStr ''refresh'')])
      = decode_access_token test_settings 101
          (test_token [(''sub'', JStr ''test@example.com''), (''exp'', JInt 604900)])
   \<and> get_current_user test_settings 101
        (test_token [(''sub'', JStr ''test@example.com''), (''exp'', JInt 604900),
                     (''type'', JStr ''refresh'')]) [test_user] (Some test_request)
      = get_current_user test_settings 101
          (test_token [(''sub'', JStr ''test@example.com''), (''exp'', JInt 604900)])
          [test_user] (Some test_request)"
proof -
  let ?tok = "test_token [(''sub'', JStr ''test@example.com''), (''exp'', JInt 604900),
      (''type'', JStr ''refresh'')]"
  have made: "create_refresh_token test_settings 100000000
      [(''sub'', JStr ''test@example.com'')] None = Inr ?tok"
    by (rule refresh_token_eq)
  from refresh_token_tag_not_read [where st = test_settings and now = 100000000
      and data = "[(''sub'', JStr ''test@example.com'')]" and expires_delta = None and tok = ?tok
      and now' = 101 and db = "[test_user]" and req = "Some test_request" and r = test_request
      and scheme = "''Bearer''"] made
  obtain expire where e:
    "\<exists>cs. get_unverified_claims ?tok = Some cs \<and> map_of cs ''type'' = Some (JStr ''refresh'')"
    "?tok = Jws ALGORITHM
       (JObj (AList.update ''type'' (JStr ''refresh'')
                (AList.update ''exp'' (JInt expire) [(''sub'', JStr ''test@example.com'')])))
       (Mac (SECRET_KEY test_settings)
          (JObj (AList.update ''type'' (JStr ''refresh'')
                   (AList.update ''exp'' (JInt expire) [(''sub'', JStr ''test@example.com'')]))))"
    "decode_access_token test_settings 101 ?tok
       = decode_access_token test_settings 101
           (Jws ALGORITHM
              (JObj (AList.update ''exp'' (JInt expire) [(''sub'', JStr ''test@example.com'')]))
              (Mac (SECRET_KEY test_settings)
                 (JObj (AList.update ''exp'' (JInt expire)
                          [(''sub'', JStr ''test@example.com'')]))))"
    "get_current_user test_settings 101 ?tok [test_user] (Some test_request)
       = get_current_user test_settings 101
           (Jws ALGORITHM
              (JObj (AList.update ''exp'' (JInt expire) [(''sub'', JStr ''test@example.com'')]))
              (Mac (SECRET_KEY test_settings)
                 (JObj (AList.update ''exp'' (JInt expire)
                          [(''sub'', JStr ''test@example.com'')]))))
           [test_user] (Some test_request)"
    by blast
  from e(2) have expire: "expire = 604900"
    by (simp add: test_token_def)
  have untagged: "Jws ALGORITHM
       (JObj (AList.update ''exp'' (JInt 604900) [(''sub'', JStr ''test@example.com'')]))
       (Mac (SECRET_KEY test_settings)
          (JObj (AList.update ''exp'' (JInt 604900) [(''sub'', JStr ''test@example.com'')])))
     = test_token [(''sub'', JStr ''test@example.com''), (''exp'', JInt 604900)]"
    by (simp add: test_token_def ALGORITHM_def test_settings_def default_settings_def)
  from made e(1) e(3) e(4) show ?thesis
    unfolding expire untagged by blast
qed

text \<open>
  C1, as the specification states it, fails: the refresh token made at second 100 for the
  fixture user, presented as a bearer access token one second later, decodes to the
  subject and resolves to the user instead of being rejected.
\<close>

theorem refresh_token_rejected_counterexample:
  "create_refresh_token test_settings 100000000 [(''sub'', JStr ''test@example.com'')] None
     = Inr (test_token [(''sub'', JStr ''test@example.com''), (''exp'', JInt 604900),
                        (''type'', JStr ''refresh'')])
   \<and> decode_access_token test_settings 101
        (test_token [(''sub'', JStr ''test@example.com''), (''exp'', JInt 604900),
                     (''type'', JStr ''refresh'')])
     = Some (TokenData ''test@example.com'')
   \<and> get_current_user test_settings 101
        (test_token [(''sub'', JStr ''test@example.com''), (''exp'', JInt 604900),
                     (''type'', JStr ''refresh'')])
        [test_user] None
     = Inr (test_user, None)
   \<and> get_me test_settings 101 [test_user]
        (test_request\<lparr>authorization := Some (''Bearer'',
           test_token [(''sub'', JStr ''test@example.com''), (''exp'', JInt 604900),
                       (''type'', JStr ''refresh'')])\<rparr>)
     = \<lparr>status_code = 200, content = UserContent (to_user_response test_user)\<rparr>"
  by (simp add: eval_token_defs get_current_user_def first_by_email_def test_user_def
      get_me_def oauth2_scheme_def test_request_def lower_Bearer read_current_user_def)

section \<open>Current-principal resolution\<close>

lemma get_current_user_invalid:
  "decode_access_token st now tok = None \<Longrightarrow>
     get_current_user st now tok db req = Inl credentials_exception"
  by (simp add: get_current_user_def)

lemma get_current_user_no_user:
  "decode_access_token st now tok = Some td \<Longrightarrow> first_by_email db (token_email td) = None \<Longrightarrow>
     get_current_user st now tok db req = Inl credentials_exception"
  by (simp add: get_current_user_def)

lemma get_current_user_raises_only_credentials_exception:
  "get_current_user st now tok db req = Inl x \<Longrightarrow> x = credentials_exception"
  by (auto simp: get_current_user_def split: option.splits)

lemma get_me_no_header:
  "authorization req = None \<Longrightarrow>
     get_me st now db req = http_exception_handler req 401 ''Not authenticated''"
  by (simp add: get_me_def oauth2_scheme_def handle_exception_def)

lemma get_me_other_scheme:
  "authorization req = Some (scheme, tok) \<Longrightarrow> lower scheme \<noteq> ''bearer'' \<Longrightarrow>
     get_me st now db req = http_exception_handler req 401 ''Not authenticated''"
  by (simp add: get_me_def oauth2_scheme_def handle_exception_def)

lemma get_me_bearer:
  "authorization req = Some (scheme, tok) \<Longrightarrow> lower scheme = ''bearer'' \<Longrightarrow>
     get_me st now db req =
       (case get_current_user st now tok db (Some req) of
          Inl e \<Rightarrow> handle_exception req e
        | Inr (current_user, req') \<Rightarrow>
            \<lparr>status_code = 200, content = UserContent (to_user_response current_user)\<rparr>)"
  by (simp add: get_me_def oauth2_scheme_def read_current_user_def split: sum.splits)

lemma get_me_unauthorized:
  assumes "authorization req = Some (scheme, tok)" and "lower scheme = ''bearer''"
    and "get_current_user st now tok db (Some req) = Inl credentials_exception"
  shows "get_me st now db req = http_exception_handler req 401 ''Could not validate credentials''"
  using assms by (simp add: get_me_bearer handle_exception_def credentials_exception_def)

lemma status_code_http_exception_handler [simp]:
  "status_code (http_exception_handler req sc detail) = sc"
  by (simp add: http_exception_handler_def)

text \<open>
  C5. \<open>GET /auth/me\<close> answers 401 in every failing case: no \<open>Authorization\<close> header, an
  expired token, a token that does not decode (tampered, forged, malformed), and a token
  that decodes to a subject no stored user has. \<open>get_current_user\<close> raises one and the same
  exception for an invalid token and for a missing user, so the two responses are equal.
\<close>

theorem get_me_unauthorized_401:
  "(authorization req = None \<longrightarrow> status_code (get_me st now db req) = 401)
   \<and> (authorization req = Some (scheme, Jws alg (JObj cs) tag)
        \<and> map_of cs ''exp'' = Some (JInt e) \<and> e < now \<longrightarrow>
        status_code (get_me st now db req) = 401)
   \<and> (authorization req = Some (scheme, tok) \<and> decode_access_token st now tok = None \<longrightarrow>
        status_code (get_me st now db req) = 401)
   \<and> (authorization req = Some (scheme, tok) \<and> decode_access_token st now tok = Some td
        \<and> first_by_email db (token_email td) = None \<longrightarrow>
        status_code (get_me st now db req) = 401)
   \<and> (authorization req = Some (scheme, tok) \<and> lower scheme = ''bearer''
        \<and> decode_access_token st now tok = None \<longrightarrow>
        get_me st now db req
          = http_exception_handler req 401 ''Could not validate credentials'')
   \<and> (authorization req = Some (scheme, tok) \<and> lower scheme = ''bearer''
        \<and> decode_access_token st now tok = Some td
        \<and> first_by_email db (token_email td) = None \<longrightarrow>
        get_me st now db req
          = http_exception_handler req 401 ''Could not validate credentials'')
   \<and> (get_current_user st now tok db r = Inl x \<longrightarrow> x = credentials_exception)"
proof -
  have fails: "status_code (get_me st now db req) = 401"
    if "authorization req = Some (scheme, t)"
      and "get_current_user st now t db (Some req) = Inl credentials_exception"
    for t
  proof (cases "lower scheme = ''bearer''")
    case True
    with that show ?thesis by (simp add: get_me_unauthorized)
  next
    case False
    with that show ?thesis by (simp add: get_me_other_scheme)
  qed
  show ?thesis
  proof (intro conjI impI)
    assume "authorization req = None"
    then show "status_code (get_me st now db req) = 401"
      by (simp add: get_me_no_header)
  next
    assume a: "authorization req = Some (scheme, Jws alg (JObj cs) tag)
        \<and> map_of cs ''exp'' = Some (JInt e) \<and> e < now"
    from a have "decode_access_token st now (Jws alg (JObj cs) tag) = None"
      by (auto intro: decode_expired)
    then have "get_current_user st now (Jws alg (JObj cs) tag) db (Some req)
        = Inl credentials_exception"
      by (rule get_current_user_invalid)
    with a show "status_code (get_me st now db req) = 401"
      using fails [of "Jws alg (JObj cs) tag"] by blast
  next
    assume a: "authorization req = Some (scheme, tok) \<and> decode_access_token st now tok = None"
    then have "get_current_user st now tok db (Some req) = Inl credentials_exception"
      by (simp add: get_current_user_invalid)
    with a show "status_code (get_me st now db req) = 401"
      using fails [of tok] by blast
  next
    assume a: "authorization req = Some (scheme, tok) \<and> decode_access_token st now tok = Some td
        \<and> first_by_email db (token_email td) = None"
    then have "get_current_user st now tok db (Some req) = Inl credentials_exception"
      by (simp add: get_current_user_no_user)
    with a show "status_code (get_me st now db req) = 401"
      using fails [of tok] by blast
  next
    assume a: "authorization req = Some (scheme, tok) \<and> lower scheme = ''bearer''
        \<and> decode_access_token st now tok = None"
    then have "get_current_user st now tok db (Some req) = Inl credentials_exception"
      by (simp add: get_current_user_invalid)
    with a show "get_me st now db req
        = http_exception_handler req 401 ''Could not validate credentials''"
      using get_me_unauthorized [of req scheme tok st now db] by blast
  next
    assume a: "authorization req = Some (scheme, tok) \<and> lower scheme = ''bearer''
        \<and> decode_access_token st now tok = Some td
        \<and> first_by_email db (token_email td) = None"
    then have "get_current_user st now tok db (Some req) = Inl credentials_exception"
      by (simp add: get_current_user_no_user)
    with a show "get_me st now db req
        = http_exception_handler req 401 ''Could not validate credentials''"
      using get_me_unauthorized [of req scheme tok st now db] by blast
  next
    assume "get_current_user st now tok db r = Inl x"
    then show "x = credentials_exception"
      by (rule get_current_user_raises_only_credentials_exception)
  qed
qed

theorem get_me_unauthorized_401_witness:
  "status_code (get_me test_settings 100 [test_user] test_request) = 401
   \<and> status_code (get_me test_settings 100 [test_user]
        (test_request\<lparr>authorization := Some (''Bearer'',
           test_token [(''sub'', JStr ''test@example.com''), (''exp'', JInt 99),
                       (''iat'', JInt 100)])\<rparr>)) = 401
   \<and> get_me test_settings 100 [test_user]
        (test_request\<lparr>authorization := Some (''Bearer'', Garbage ''invalid_token_here'')\<rparr>)
      = \<lparr>status_code = 401,
         content = ErrorContent
           \<lparr>error = ''HTTP_401'', message = ''Could not validate credentials'', details = None,
            path = ''/api/auth/me''\<rparr>\<rparr>
   \<and> get_me test_settings 100 []
        (test_request\<lparr>authorization := Some (''Bearer'',
           test_token [(''sub'', JStr ''test@example.com''), (''exp'', JInt 1900),
                       (''iat'', JInt 100)])\<rparr>)
      = \<lparr>status_code = 401,
         content = ErrorContent
           \<lparr>error = ''HTTP_401'', message = ''Could not validate credentials'', details = None,
            path = ''/api/auth/me''\<rparr>\<rparr>"
proof -
  let ?expired = "Jws ALGORITHM
         (JObj [(''sub'', JStr ''test@example.com''), (''exp'', JInt 99), (''iat'', JInt 100)])
         (Mac ''test-secret''
            (JObj [(''sub'', JStr ''test@example.com''), (''exp'', JInt 99), (''iat'', JInt 100)]))"
  let ?fresh = "test_token
      [(''sub'', JStr ''test@example.com''), (''exp'', JInt 1900), (''iat'', JInt 100)]"
  note t = get_me_unauthorized_401
  have no_header: "authorization test_request = None"
    by (simp add: test_request_def)
  have expired: "authorization (test_request\<lparr>authorization := Some (''Bearer'', ?expired)\<rparr>)
        = Some (''Bearer'', ?expired)
      \<and> map_of [(''sub'', JStr ''test@example.com''), (''exp'', JInt 99), (''iat'', JInt 100)] ''exp''
        = Some (JInt 99) \<and> (99 :: int) < 100"
    by simp
  have invalid: "authorization (test_request\<lparr>authorization := Some (''Bearer'', Garbage ''invalid_token_here'')\<rparr>)
        = Some (''Bearer'', Garbage ''invalid_token_here'') \<and> lower ''Bearer'' = ''bearer''
      \<and> decode_access_token test_settings 100 (Garbage ''invalid_token_here'') = None"
    by (simp add: lower_Bearer decode_garbage)
  have gone: "authorization (test_request\<lparr>authorization := Some (''Bearer'', ?fresh)\<rparr>)
        = Some (''Bearer'', ?fresh) \<and> lower ''Bearer'' = ''bearer''
      \<and> decode_access_token test_settings 100 ?fresh = Some (TokenData ''test@example.com'')
      \<and> first_by_email [] (token_email (TokenData ''test@example.com'')) = None"
    by (simp add: lower_Bearer fresh_token_decodes first_by_email_def)
  have c1: "status_code (get_me test_settings 100 [test_user] test_request) = 401"
    using t [where req = test_request and st = test_settings and now = 100 and db = "[test_user]"]
      no_header by blast
  have c2: "status_code (get_me test_settings 100 [test_user]
        (test_request\<lparr>authorization := Some (''Bearer'', ?expired)\<rparr>)) = 401"
    using t [where req = "test_request\<lparr>authorization := Some (''Bearer'', ?expired)\<rparr>"
        and st = test_settings and now = 100 and db = "[test_user]" and scheme = "''Bearer''"
        and alg = ALGORITHM and e = 99
        and cs = "[(''sub'', JStr ''test@example.com''), (''exp'', JInt 99), (''iat'', JInt 100)]"
        and tag = "Mac ''test-secret''
            (JObj [(''sub'', JStr ''test@example.com''), (''exp'', JInt 99), (''iat'', JInt 100)])"]
      expired by blast
  have c3: "get_me test_settings 100 [test_user]
        (test_request\<lparr>authorization := Some (''Bearer'', Garbage ''invalid_token_here'')\<rparr>)
      = http_exception_handler
          (test_request\<lparr>authorization := Some (''Bearer'', Garbage ''invalid_token_here'')\<rparr>)
          401 ''Could not validate credentials''"
    using t [where req = "test_request\<lparr>authorization := Some (''Bearer'', Garbage ''invalid_token_here'')\<rparr>"
        and st = test_settings and now = 100 and db = "[test_user]" and scheme = "''Bearer''"
        and tok = "Garbage ''invalid_token_here''"]
      invalid by blast
  have c4: "get_me test_settings 100 []
        (test_request\<lparr>authorization := Some (''Bearer'', ?fresh)\<rparr>)
      = http_exception_handler (test_request\<lparr>authorization := Some (''Bearer'', ?fresh)\<rparr>)
          401 ''Could not validate credentials''"
    using t [where req = "test_request\<lparr>authorization := Some (''Bearer'', ?fresh)\<rparr>"
        and st = test_settings and now = 100 and db = "[]" and scheme = "''Bearer''"
        and tok = ?fresh and td = "TokenData ''test@example.com''"]
      gone by blast
  from c1 c2 c3 c4 show ?thesis
    by (simp add: test_token_def ALGORITHM_def http_exception_handler_def str_nat_401
        test_request_def)
qed

section \<open>The active flag\<close>

lemma login_inactive:
  "first_by_email db (username form_data) = Some u \<Longrightarrow>
   verify_password pwd_verify (password form_data) (hashed_password u) \<Longrightarrow> \<not> is_active u \<Longrightarrow>
     login pwd_verify st now db form_data = Inl (HTTPException 403 ''Inactive user'' [])"
  by (simp add: login_def)

text \<open>
  C6. \<open>get_current_user\<close> never reads the active flag: for a token that decodes to the
  email of a stored user whose \<open>is_active\<close> is false, it returns that user (and stores it
  on the request), and \<open>GET /auth/me\<close> answers 200 with the user's public representation.
  The flag is read in \<open>login\<close> only, where the same user with the right password gets 403.
\<close>

theorem get_current_user_ignores_active_flag:
  assumes "decode_access_token st now tok = Some td"
    and "first_by_email db (token_email td) = Some u"
    and "\<not> is_active u"
  shows "get_current_user st now tok db req
           = Inr (u, map_option (\<lambda>r. r\<lparr>state_user := Some u\<rparr>) req)
     \<and> (authorization r = Some (scheme, tok) \<and> lower scheme = ''bearer'' \<longrightarrow>
          get_me st now db r
            = \<lparr>status_code = 200, content = UserContent (to_user_response u)\<rparr>)
     \<and> (first_by_email db (username form_data) = Some u
          \<and> verify_password pwd_verify (password form_data) (hashed_password u) \<longrightarrow>
          login pwd_verify st now' db form_data = Inl (HTTPException 403 ''Inactive user'' []))"
proof (intro conjI impI)
  show "get_current_user st now tok db req
      = Inr (u, map_option (\<lambda>r. r\<lparr>state_user := Some u\<rparr>) req)"
    using assms(1,2) by (rule get_current_user_found)
next
  assume a: "authorization r = Some (scheme, tok) \<and> lower scheme = ''bearer''"
  have "get_current_user st now tok db (Some r) = Inr (u, Some (r\<lparr>state_user := Some u\<rparr>))"
    using get_current_user_found [OF assms(1,2), of "Some r"] by simp
  with a show "get_me st now db r
      = \<lparr>status_code = 200, content = UserContent (to_user_response u)\<rparr>"
    by (simp add: get_me_bearer [of r scheme tok])
next
  assume "first_by_email db (username form_data) = Some u
      \<and> verify_password pwd_verify (password form_data) (hashed_password u)"
  with assms(3) show "login pwd_verify st now' db form_data
      = Inl (HTTPException 403 ''Inactive user'' [])"
    by (simp add: login_inactive)
qed

theorem get_current_user_ignores_active_flag_witness:
  "get_current_user test_settings 100
      (test_token [(''sub'', JStr ''inactive@example.com''), (''exp'', JInt 1900),
                   (''iat'', JInt 100)])
      [test_user, inactive_user] (Some test_request)
     = Inr (inactive_user, Some (test_request\<lparr>state_user := Some inactive_user\<rparr>))
   \<and> get_me test_settings 100 [test_user, inactive_user]
        (test_request\<lparr>authorization := Some (''Bearer'',
           test_token [(''sub'', JStr ''inactive@example.com''), (''exp'', JInt 1900),
                       (''iat'', JInt 100)])\<rparr>)
     = \<lparr>status_code = 200, content = UserContent (to_user_response inactive_user)\<rparr>
   \<and> login stub_pwd_verify test_settings 100000000 [test_user, inactive_user]
        \<lparr>username = ''inactive@example.com'', password = ''password123''\<rparr>
     = Inl (HTTPException 403 ''Inactive user'' [])"
proof -
  let ?tok = "test_token
      [(''sub'', JStr ''inactive@example.com''), (''exp'', JInt 1900), (''iat'', JInt 100)]"
  have decoded: "decode_access_token test_settings 100 ?tok = Some (TokenData ''inactive@example.com'')"
    by (rule fresh_token_decodes)
  have found: "first_by_email [test_user, inactive_user]
      (token_email (TokenData ''inactive@example.com'')) = Some inactive_user"
    by (simp add: first_by_email_def test_user_def inactive_user_def)
  have inactive: "\<not> is_active inactive_user"
    by (simp add: inactive_user_def)
  have header: "authorization (test_request\<lparr>authorization := Some (''Bearer'', ?tok)\<rparr>)
      = Some (''Bearer'', ?tok) \<and> lower ''Bearer'' = ''bearer''"
    by (simp add: lower_Bearer)
  have creds: "first_by_email [test_user, inactive_user]
        (username \<lparr>username = ''inactive@example.com'', password = ''password123''\<rparr>)
        = Some inactive_user
      \<and> verify_password stub_pwd_verify
          (password \<lparr>username = ''inactive@example.com'', password = ''password123''\<rparr>)
          (hashed_password inactive_user)"
    by (simp add: first_by_email_def test_user_def inactive_user_def verify_password_def
        stub_pwd_verify_def)
  show ?thesis
    using get_current_user_ignores_active_flag [OF decoded found inactive,
        where req = "Some test_request"
          and r = "test_request\<lparr>authorization := Some (''Bearer'', ?tok)\<rparr>"
          and scheme = "''Bearer''" and pwd_verify = stub_pwd_verify and now' = 100000000
          and form_data = "\<lparr>username = ''inactive@example.com'', password = ''password123''\<rparr>"]
      header creds
    by simp
qed

section \<open>The limiter's check\<close>

lemma get_client_identifier_not_empty: "get_client_identifier req \<noteq> []"
  by (simp add: get_client_identifier_def split: option.splits)

lemma check_request_limit_single:
  "url_path req \<noteq> [] \<Longrightarrow>
     check_request_limit s t req [limiter_limit item] =
       (case hit s t item [get_client_identifier req, url_path req] (Suc 0) of
          (s', admitted) \<Rightarrow> (s', if admitted then None else Some item))"
  by (simp add: check_request_limit_def limiter_limit_def get_client_identifier_not_empty
      split: prod.splits)

lemma check_request_limit_failed_item:
  "check_request_limit s t req [limiter_limit item] = (s', Some failed) \<Longrightarrow> failed = item"
proof (cases "url_path req = []")
  case True
  assume "check_request_limit s t req [limiter_limit item] = (s', Some failed)"
  with True show ?thesis
    by (simp add: check_request_limit_def)
next
  case False
  assume "check_request_limit s t req [limiter_limit item] = (s', Some failed)"
  with False show ?thesis
    by (auto simp: check_request_limit_single split: prod.splits if_splits)
qed

lemma hit_fresh:
  "s (key_for item ids) = None \<Longrightarrow>
     hit s t item ids (Suc 0)
       = (s(key_for item ids \<mapsto> (Suc 0, t + real (get_expiry item))), Suc 0 \<le> amount item)"
  by (simp add: hit_def storage_incr_def storage_get_def)


lemma hit_running:
  "s (key_for item ids) = Some (c, e) \<Longrightarrow> t < e \<Longrightarrow> 0 < c \<Longrightarrow>
     hit s t item ids (Suc 0) = (s(key_for item ids \<mapsto> (Suc c, e)), Suc c \<le> amount item)"
  by (simp add: hit_def storage_incr_def storage_get_def)

section \<open>Login\<close>

lemma first_by_email_Some_email:
  "first_by_email db e = Some u \<Longrightarrow> email u = e \<and> u \<in> set db"
  by (auto simp: first_by_email_def find_Some_iff)

lemma first_by_email_None_iff:
  "first_by_email db e = None \<longleftrightarrow> e \<notin> email ` set db"
  by (auto simp: first_by_email_def find_None_iff)

lemma create_access_token_Inr_sub:
  "create_access_token st now [(''sub'', JStr e)] expires_delta = Inr tok \<Longrightarrow>
     \<exists>cs. get_unverified_claims tok = Some cs \<and> map_of cs ''sub'' = Some (JStr e)"
  by (auto simp: create_access_token_def jwt_encode_def get_unverified_claims_def Let_def
      update_conv' split: option.splits sum.splits if_splits)

lemma create_access_token_default_Inr:
  assumes "hmac_key_ok (SECRET_KEY st)"
    and "timedelta_minutes (ACCESS_TOKEN_EXPIRE_MINUTES st) = Inr d"
    and "datetime_add now d = Inr expire"
  shows "create_access_token st now data None
     = Inr (Jws ALGORITHM
              (JObj (AList.update ''iat'' (JInt (timegm now))
                       (AList.update ''exp'' (JInt (timegm expire)) data)))
              (Mac (SECRET_KEY st)
                 (JObj (AList.update ''iat'' (JInt (timegm now))
                          (AList.update ''exp'' (JInt (timegm expire)) data)))))"
  using assms by (simp add: create_access_token_def jwt_encode_def)

lemma post_login_limited:
  "check_request_limit s t req [limiter_limit (per_minute 10)] = (s', Some failed) \<Longrightarrow>
     post_login s t pwd_verify st now db req form_data = (s', rate_limit_exceeded_handler req failed)"
  by (simp add: post_login_def handle_exception_def)

lemma post_login_admitted:
  "check_request_limit s t req [limiter_limit (per_minute 10)] = (s', None) \<Longrightarrow>
     post_login s t pwd_verify st now db req form_data =
       (s', case login pwd_verify st now db form_data of
              Inl e \<Rightarrow> handle_exception req e
            | Inr res \<Rightarrow>
                \<lparr>status_code = 200,
                 content = LoginContent (access_token res) (token_type res)
                             (to_user_response (login_user res))\<rparr>)"
  by (simp add: post_login_def split: sum.splits)

lemma fst_post_login:
  "fst (post_login s t pwd_verify st now db req form_data)
     = fst (check_request_limit s t req [limiter_limit (per_minute 10)])"
  by (simp add: post_login_def split: prod.splits option.splits sum.splits)

lemma login_not_found:
  "first_by_email db (username form_data) = None \<Longrightarrow>
     login pwd_verify st now db form_data = Inl (HTTPException 401 ''Incorrect email or password'' [])"
  by (simp add: login_def)

lemma login_wrong_password:
  "first_by_email db (username form_data) = Some u \<Longrightarrow>
   \<not> verify_password pwd_verify (password form_data) (hashed_password u) \<Longrightarrow>
     login pwd_verify st now db form_data = Inl (HTTPException 401 ''Incorrect email or password'' [])"
  by (simp add: login_def)

lemma login_success:
  "first_by_email db (username form_data) = Some u \<Longrightarrow>
   verify_password pwd_verify (password form_data) (hashed_password u) \<Longrightarrow> is_active u \<Longrightarrow>
     login pwd_verify st now db form_data =
       (case create_access_token st now [(''sub'', JStr (email u))] None of
          Inl e \<Rightarrow> Inl (OtherException e)
        | Inr tok \<Rightarrow> Inr \<lparr>access_token = tok, token_type = ''bearer'', login_user = u\<rparr>)"
  by (simp add: login_def)

lemma http_401_response:
  "handle_exception req (HTTPException 401 detail headers) =
     \<lparr>status_code = 401,
      content = ErrorContent
        \<lparr>error = ''HTTP_401'', message = detail, details = None, path = url_path req\<rparr>\<rparr>"
  by (simp add: handle_exception_def http_exception_handler_def str_nat_401)

lemma http_403_response:
  "handle_exception req (HTTPException 403 detail headers) =
     \<lparr>status_code = 403,
      content = ErrorContent
        \<lparr>error = ''HTTP_403'', message = detail, details = None, path = url_path req\<rparr>\<rparr>"
  by (simp add: handle_exception_def http_exception_handler_def str_nat_403)

lemma str_nat_1: "str_nat 1 = ''1''"
  by code_simp

lemma str_nat_Suc_0: "str_nat (Suc 0) = ''1''"
  using str_nat_1 by simp

lemma str_nat_10: "str_nat 10 = ''10''"
  by code_simp

lemma str_nat_5: "str_nat 5 = ''5''"
  by code_simp

lemma client_identifier_login_request: "get_client_identifier login_request = ''ip:203.0.113.7''"
  by (simp add: get_client_identifier_def get_remote_address_def login_request_def
      test_request_def)

lemma url_path_login_request_eq: "url_path login_request = ''/api/auth/login''"
  by (simp add: login_request_def)

lemma key_for_login_request:
  "key_for (per_minute 10) [get_client_identifier login_request, url_path login_request]
     = login_key"
  by (simp add: key_for_def per_minute_def client_identifier_login_request
      url_path_login_request_eq granularity_name_def str_nat_10 str_nat_Suc_0 login_key_def)

lemma get_expiry_per_minute: "get_expiry (per_minute n) = 60"
  by (simp add: get_expiry_def per_minute_def granularity_seconds_def)

lemma url_path_login_request: "url_path login_request \<noteq> []"
  by (simp add: login_request_def)

lemma amount_per_minute: "amount (per_minute n) = n"
  by (simp add: per_minute_def)

lemma hit_login_fresh:
  "s login_key = None \<Longrightarrow>
     hit s 100 (per_minute 10) [get_client_identifier login_request, url_path login_request]
       (Suc 0)
     = (s(login_key \<mapsto> (Suc 0, 160)), True)"
  using hit_fresh [of s "per_minute 10"
      "[get_client_identifier login_request, url_path login_request]" 100]
  by (simp add: key_for_login_request get_expiry_per_minute amount_per_minute)

lemma hit_login_running:
  "s login_key = Some (c, 160) \<Longrightarrow> 0 < c \<Longrightarrow>
     hit s 100 (per_minute 10) [get_client_identifier login_request, url_path login_request]
       (Suc 0)
     = (s(login_key \<mapsto> (Suc c, 160)), Suc c \<le> 10)"
  using hit_running [of s "per_minute 10"
      "[get_client_identifier login_request, url_path login_request]" c 160 100]
  by (simp add: key_for_login_request amount_per_minute)

lemma check_login_fresh:
  "s login_key = None \<Longrightarrow>
     check_request_limit s 100 login_request [limiter_limit (per_minute 10)]
       = (s(login_key \<mapsto> (Suc 0, 160)), None)"
  by (simp add: check_request_limit_single url_path_login_request hit_login_fresh)

lemma check_login_running:
  "s login_key = Some (c, 160) \<Longrightarrow> 0 < c \<Longrightarrow>
     check_request_limit s 100 login_request [limiter_limit (per_minute 10)]
       = (s(login_key \<mapsto> (Suc c, 160)), if Suc c \<le> 10 then None else Some (per_minute 10))"
  by (simp add: check_request_limit_single url_path_login_request hit_login_running)

lemma storage_after_logins_Suc:
  "storage_after_logins (Suc n) = [login_key \<mapsto> (Suc n, 160)]"
proof (induction n)
  case 0
  have "storage_after_logins (Suc 0)
      = fst (check_request_limit Map.empty 100 login_request [limiter_limit (per_minute 10)])"
    by (simp add: fst_post_login)
  also have "\<dots> = [login_key \<mapsto> (Suc 0, 160)]"
    by (simp add: check_login_fresh)
  finally show ?case .
next
  case (Suc n)
  have "storage_after_logins (Suc (Suc n))
      = fst (check_request_limit (storage_after_logins (Suc n)) 100 login_request
               [limiter_limit (per_minute 10)])"
    by (subst storage_after_logins.simps(2)) (rule fst_post_login)
  also have "\<dots> = [login_key \<mapsto> (Suc (Suc n), 160)]"
    unfolding Suc.IH by (simp add: check_login_running)
  finally show ?case .
qed

text \<open>
  C2, as the code has it. \<open>POST /auth/login\<close> stands behind its rate limit of ten requests
  per minute and client: a request beyond the limit is answered 429 before \<open>login\<close> runs.
  For every request the limit admits, \<open>login\<close> proceeds in this order: no user with that
  email gives 401 with the message \<open>Incorrect email or password\<close>; a user whose password
  does not verify gives the very same response (status 401, same message); an inactive
  user whose password verifies gives 403; otherwise the token that \<open>create_access_token\<close>
  makes is returned with status 200, the marker \<open>bearer\<close> and the user's public
  representation, and its \<open>sub\<close> claim is the user's email, the email submitted. That
  token is made whenever the secret is a usable HMAC key and the expiry, now plus the
  configured minutes, is a representable date.
\<close>

theorem login_protocol:
  "(check_request_limit s t req [limiter_limit (per_minute 10)] = (s', Some failed) \<longrightarrow>
      fst (post_login s t pwd_verify st now db req form_data) = s'
      \<and> status_code (snd (post_login s t pwd_verify st now db req form_data)) = 429)
   \<and> (check_request_limit s t req [limiter_limit (per_minute 10)] = (s', None) \<longrightarrow>
        (first_by_email db (username form_data) = None \<longrightarrow>
           post_login s t pwd_verify st now db req form_data
             = (s', \<lparr>status_code = 401,
                     content = ErrorContent
                       \<lparr>error = ''HTTP_401'', message = ''Incorrect email or password'',
                        details = None, path = url_path req\<rparr>\<rparr>))
        \<and> (first_by_email db (username form_data) = Some u
             \<and> \<not> verify_password pwd_verify (password form_data) (hashed_password u) \<longrightarrow>
           post_login s t pwd_verify st now db req form_data
             = (s', \<lparr>status_code = 401,
                     content = ErrorContent
                       \<lparr>error = ''HTTP_401'', message = ''Incorrect email or password'',
                        details = None, path = url_path req\<rparr>\<rparr>))
        \<and> (first_by_email db (username form_data) = Some u
             \<and> verify_password pwd_verify (password form_data) (hashed_password u)
             \<and> \<not> is_active u \<longrightarrow>
           post_login s t pwd_verify st now db req form_data
             = (s', \<lparr>status_code = 403,
                     content = ErrorContent
                       \<lparr>error = ''HTTP_403'', message = ''Inactive user'',
                        details = None, path = url_path req\<rparr>\<rparr>))
        \<and> (first_by_email db (username form_data) = Some u
             \<and> verify_password pwd_verify (password form_data) (hashed_password u)
             \<and> is_active u \<longrightarrow>
           (\<forall>tok. create_access_token st now [(''sub'', JStr (email u))] None = Inr tok \<longrightarrow>
              post_login s t pwd_verify st now db req form_data
                = (s', \<lparr>status_code = 200,
                        content = LoginContent tok ''bearer'' (to_user_response u)\<rparr>)
              \<and> (\<exists>cs. get_unverified_claims tok = Some cs
                    \<and> map_of cs ''sub'' = Some (JStr (username form_data))))
           \<and> (hmac_key_ok (SECRET_KEY st)
                \<and> timedelta_minutes (ACCESS_TOKEN_EXPIRE_MINUTES st) = Inr d
                \<and> datetime_add now d = Inr expire \<longrightarrow>
              (\<exists>tok. create_access_token st now [(''sub'', JStr (email u))] None = Inr tok))))"
proof (intro conjI impI allI)
  assume "check_request_limit s t req [limiter_limit (per_minute 10)] = (s', Some failed)"
  then have "post_login s t pwd_verify st now db req form_data
      = (s', rate_limit_exceeded_handler req failed)"
    by (rule post_login_limited)
  then show "fst (post_login s t pwd_verify st now db req form_data) = s'"
    and "status_code (snd (post_login s t pwd_verify st now db req form_data)) = 429"
    by (simp_all add: rate_limit_exceeded_handler_def)
next
  assume adm: "check_request_limit s t req [limiter_limit (per_minute 10)] = (s', None)"
    and "first_by_email db (username form_data) = None"
  then show "post_login s t pwd_verify st now db req form_data
      = (s', \<lparr>status_code = 401,
              content = ErrorContent
                \<lparr>error = ''HTTP_401'', message = ''Incorrect email or password'',
                 details = None, path = url_path req\<rparr>\<rparr>)"
    by (simp add: post_login_admitted login_not_found http_401_response)
next
  assume adm: "check_request_limit s t req [limiter_limit (per_minute 10)] = (s', None)"
    and "first_by_email db (username form_data) = Some u
      \<and> \<not> verify_password pwd_verify (password form_data) (hashed_password u)"
  then show "post_login s t pwd_verify st now db req form_data
      = (s', \<lparr>status_code = 401,
              content = ErrorContent
                \<lparr>error = ''HTTP_401'', message = ''Incorrect email or password'',
                 details = None, path = url_path req\<rparr>\<rparr>)"
    by (simp add: post_login_admitted login_wrong_password http_401_response)
next
  assume adm: "check_request_limit s t req [limiter_limit (per_minute 10)] = (s', None)"
    and "first_by_email db (username form_data) = Some u
      \<and> verify_password pwd_verify (password form_data) (hashed_password u) \<and> \<not> is_active u"
  then show "post_login s t pwd_verify st now db req form_data
      = (s', \<lparr>status_code = 403,
              content = ErrorContent
                \<lparr>error = ''HTTP_403'', message = ''Inactive user'',
                 details = None, path = url_path req\<rparr>\<rparr>)"
    by (simp add: post_login_admitted login_inactive http_403_response)
next
  fix tok
  assume adm: "check_request_limit s t req [limiter_limit (per_minute 10)] = (s', None)"
    and a: "first_by_email db (username form_data) = Some u
      \<and> verify_password pwd_verify (password form_data) (hashed_password u) \<and> is_active u"
    and tok: "create_access_token st now [(''sub'', JStr (email u))] None = Inr tok"
  from a have e: "email u = username form_data"
    using first_by_email_Some_email [of db "username form_data" u] by blast
  from a tok have "login pwd_verify st now db form_data
      = Inr \<lparr>access_token = tok, token_type = ''bearer'', login_user = u\<rparr>"
    by (simp add: login_success)
  with adm show "post_login s t pwd_verify st now db req form_data
      = (s', \<lparr>status_code = 200, content = LoginContent tok ''bearer'' (to_user_response u)\<rparr>)"
    by (simp add: post_login_admitted)
  from tok e show "\<exists>cs. get_unverified_claims tok = Some cs
      \<and> map_of cs ''sub'' = Some (JStr (username form_data))"
    using create_access_token_Inr_sub [of st now "email u" None tok] by simp
next
  assume "hmac_key_ok (SECRET_KEY st)
      \<and> timedelta_minutes (ACCESS_TOKEN_EXPIRE_MINUTES st) = Inr d
      \<and> datetime_add now d = Inr expire"
  then show "\<exists>tok. create_access_token st now [(''sub'', JStr (email u))] None = Inr tok"
    by (simp add: create_access_token_default_Inr)
qed

lemma storage_after_logins_pos:
  assumes "0 < n"
  shows "storage_after_logins n = [login_key \<mapsto> (n, 160)]"
proof (cases n)
  case 0
  with assms show ?thesis by simp
next
  case (Suc m)
  then show ?thesis by (simp only: storage_after_logins_Suc)
qed

lemmas eval_user_defs =
  first_by_email_def test_user_def inactive_user_def verify_password_def stub_pwd_verify_def

theorem login_protocol_witness:
  "post_login Map.empty 100 stub_pwd_verify test_settings 100000000 [test_user, inactive_user]
      login_request \<lparr>username = ''nonexistent@example.com'', password = ''password123''\<rparr>
     = ([login_key \<mapsto> (Suc 0, 160)],
        \<lparr>status_code = 401,
         content = ErrorContent
           \<lparr>error = ''HTTP_401'', message = ''Incorrect email or password'', details = None,
            path = ''/api/auth/login''\<rparr>\<rparr>)
   \<and> post_login Map.empty 100 stub_pwd_verify test_settings 100000000 [test_user, inactive_user]
        login_request \<lparr>username = ''test@example.com'', password = ''wrongpassword''\<rparr>
     = ([login_key \<mapsto> (Suc 0, 160)],
        \<lparr>status_code = 401,
         content = ErrorContent
           \<lparr>error = ''HTTP_401'', message = ''Incorrect email or password'', details = None,
            path = ''/api/auth/login''\<rparr>\<rparr>)
   \<and> post_login Map.empty 100 stub_pwd_verify test_settings 100000000 [test_user, inactive_user]
        login_request \<lparr>username = ''inactive@example.com'', password = ''password123''\<rparr>
     = ([login_key \<mapsto> (Suc 0, 160)],
        \<lparr>status_code = 403,
         content = ErrorContent
           \<lparr>error = ''HTTP_403'', message = ''Inactive user'', details = None,
            path = ''/api/auth/login''\<rparr>\<rparr>)
   \<and> post_login Map.empty 100 stub_pwd_verify test_settings 100000000 [test_user, inactive_user]
        login_request \<lparr>username = ''test@example.com'', password = ''testpassword123''\<rparr>
     = ([login_key \<mapsto> (Suc 0, 160)],
        \<lparr>status_code = 200,
         content = LoginContent
           (test_token [(''sub'', JStr ''test@example.com''), (''exp'', JInt 1900),
                        (''iat'', JInt 100)])
           ''bearer'' (to_user_response test_user)\<rparr>)
   \<and> status_code
        (snd (post_login (storage_after_logins 10) 100 stub_pwd_verify test_settings 100000000
                [test_user, inactive_user] login_request
                \<lparr>username = ''test@example.com'', password = ''testpassword123''\<rparr>)) = 429"
proof -
  let ?db = "[test_user, inactive_user]"
  let ?s1 = "[login_key \<mapsto> (Suc 0, 160 :: real)]"
  let ?tok = "test_token
      [(''sub'', JStr ''test@example.com''), (''exp'', JInt 1900), (''iat'', JInt 100)]"
  have adm: "check_request_limit Map.empty 100 login_request [limiter_limit (per_minute 10)]
      = (?s1, None)"
    by (simp add: check_login_fresh)
  have lim: "check_request_limit (storage_after_logins 10) 100 login_request
      [limiter_limit (per_minute 10)]
      = ([login_key \<mapsto> (Suc 10, 160)], Some (per_minute 10))"
    by (simp add: storage_after_logins_pos check_login_running)
  have h1: "first_by_email ?db
      (username \<lparr>username = ''nonexistent@example.com'', password = ''password123''\<rparr>) = None"
    by (simp add: eval_user_defs)
  have h2: "first_by_email ?db
        (username \<lparr>username = ''test@example.com'', password = ''wrongpassword''\<rparr>) = Some test_user
      \<and> \<not> verify_password stub_pwd_verify
          (password \<lparr>username = ''test@example.com'', password = ''wrongpassword''\<rparr>)
          (hashed_password test_user)"
    by (simp add: eval_user_defs)
  have h3: "first_by_email ?db
        (username \<lparr>username = ''inactive@example.com'', password = ''password123''\<rparr>)
        = Some inactive_user
      \<and> verify_password stub_pwd_verify
          (password \<lparr>username = ''inactive@example.com'', password = ''password123''\<rparr>)
          (hashed_password inactive_user)
      \<and> \<not> is_active inactive_user"
    by (simp add: eval_user_defs)
  have h4: "first_by_email ?db
        (username \<lparr>username = ''test@example.com'', password = ''testpassword123''\<rparr>)
        = Some test_user
      \<and> verify_password stub_pwd_verify
          (password \<lparr>username = ''test@example.com'', password = ''testpassword123''\<rparr>)
          (hashed_password test_user)
      \<and> is_active test_user"
    by (simp add: eval_user_defs)
  have tok: "create_access_token test_settings 100000000 [(''sub'', JStr (email test_user))] None
      = Inr ?tok"
    by (simp add: fresh_token_eq test_user_def)
  have path: "url_path login_request = ''/api/auth/login''"
    by (rule url_path_login_request_eq)
  have c1: "post_login Map.empty 100 stub_pwd_verify test_settings 100000000 ?db login_request
      \<lparr>username = ''nonexistent@example.com'', password = ''password123''\<rparr>
     = (?s1, \<lparr>status_code = 401,
         content = ErrorContent
           \<lparr>error = ''HTTP_401'', message = ''Incorrect email or password'', details = None,
            path = url_path login_request\<rparr>\<rparr>)"
    by (rule login_protocol [where s = Map.empty and t = 100 and req = login_request
        and s' = "[login_key \<mapsto> (Suc 0, 160)]" and failed = "per_minute 10"
        and pwd_verify = stub_pwd_verify and st = test_settings and now = 100000000
        and db = "[test_user, inactive_user]" and d = 1800000000 and expire = 1900000000
        and form_data = "\<lparr>username = ''nonexistent@example.com'', password = ''password123''\<rparr>"
        and u = test_user, THEN conjunct2, THEN mp, OF adm,
        THEN conjunct1, THEN mp, OF h1])
  have c2: "post_login Map.empty 100 stub_pwd_verify test_settings 100000000 ?db login_request
      \<lparr>username = ''test@example.com'', password = ''wrongpassword''\<rparr>
     = (?s1, \<lparr>status_code = 401,
         content = ErrorContent
           \<lparr>error = ''HTTP_401'', message = ''Incorrect email or password'', details = None,
            path = url_path login_request\<rparr>\<rparr>)"
    by (rule login_protocol [where s = Map.empty and t = 100 and req = login_request
        and s' = "[login_key \<mapsto> (Suc 0, 160)]" and failed = "per_minute 10"
        and pwd_verify = stub_pwd_verify and st = test_settings and now = 100000000
        and db = "[test_user, inactive_user]" and d = 1800000000 and expire = 1900000000
        and form_data = "\<lparr>username = ''test@example.com'', password = ''wrongpassword''\<rparr>"
        and u = test_user, THEN conjunct2, THEN mp, OF adm,
        THEN conjunct2, THEN conjunct1, THEN mp, OF h2])
  have c3: "post_login Map.empty 100 stub_pwd_verify test_settings 100000000 ?db login_request
      \<lparr>username = ''inactive@example.com'', password = ''password123''\<rparr>
     = (?s1, \<lparr>status_code = 403,
         content = ErrorContent
           \<lparr>error = ''HTTP_403'', message = ''Inactive user'', details = None,
            path = url_path login_request\<rparr>\<rparr>)"
    by (rule login_protocol [where s = Map.empty and t = 100 and req = login_request
        and s' = "[login_key \<mapsto> (Suc 0, 160)]" and failed = "per_minute 10"
        and pwd_verify = stub_pwd_verify and st = test_settings and now = 100000000
        and db = "[test_user, inactive_user]" and d = 1800000000 and expire = 1900000000
        and form_data = "\<lparr>username = ''inactive@example.com'', password = ''password123''\<rparr>"
        and u = inactive_user, THEN conjunct2, THEN mp, OF adm,
        THEN conjunct2, THEN conjunct2, THEN conjunct1, THEN mp, OF h3])
  have c4: "post_login Map.empty 100 stub_pwd_verify test_settings 100000000 ?db login_request
      \<lparr>username = ''test@example.com'', password = ''testpassword123''\<rparr>
     = (?s1, \<lparr>status_code = 200,
         content = LoginContent ?tok ''bearer'' (to_user_response test_user)\<rparr>)"
    by (rule login_protocol [where s = Map.empty and t = 100 and req = login_request
        and s' = "[login_key \<mapsto> (Suc 0, 160)]" and failed = "per_minute 10"
        and pwd_verify = stub_pwd_verify and st = test_settings and now = 100000000
        and db = "[test_user, inactive_user]" and d = 1800000000 and expire = 1900000000
        and form_data = "\<lparr>username = ''test@example.com'', password = ''testpassword123''\<rparr>"
        and u = test_user, THEN conjunct2, THEN mp, OF adm,
        THEN conjunct2, THEN conjunct2, THEN conjunct2, THEN mp, OF h4,
        THEN conjunct1, THEN spec, THEN mp, OF tok, THEN conjunct1])
  have c5: "status_code
        (snd (post_login (storage_after_logins 10) 100 stub_pwd_verify test_settings 100000000
                ?db login_request
                \<lparr>username = ''test@example.com'', password = ''testpassword123''\<rparr>)) = 429"
    by (rule login_protocol [where s = "storage_after_logins 10" and t = 100
        and req = login_request and s' = "[login_key \<mapsto> (Suc 10, 160)]"
        and failed = "per_minute 10" and pwd_verify = stub_pwd_verify
        and st = test_settings and now = 100000000 and db = ?db and d = 1800000000
        and expire = 1900000000 and u = test_user
        and form_data = "\<lparr>username = ''test@example.com'', password = ''testpassword123''\<rparr>",
        THEN conjunct1, THEN mp, OF lim, THEN conjunct2])
  from c1 c2 c3 c4 c5 show ?thesis
    unfolding path by (intro conjI)
qed

text \<open>
  C2, as the specification states it, fails. Ten logins with an unknown email, from one
  client within one minute, are each answered 401, the tenth included; the eleventh gets
  429 although no user has that email. And with a token lifetime of more minutes than a
  duration can hold, a login with the right password of an active user gets 500 and no
  token.
\<close>

theorem login_protocol_counterexample:
  "first_by_email [test_user] (username unknown_login) = None
   \<and> status_code
        (snd (post_login (storage_after_logins 9) 100 stub_pwd_verify test_settings 100000000
                [test_user] login_request unknown_login)) = 401
   \<and> status_code
        (snd (post_login (storage_after_logins 10) 100 stub_pwd_verify test_settings 100000000
                [test_user] login_request unknown_login)) = 429
   \<and> snd (post_login Map.empty 100 stub_pwd_verify long_lived_settings 100000000 [test_user]
             login_request \<lparr>username = ''test@example.com'', password = ''testpassword123''\<rparr>)
      = \<lparr>status_code = 500,
         content = ErrorContent
           \<lparr>error = ''INTERNAL_SERVER_ERROR'', message = ''An unexpected error occurred'',
            details = None, path = ''/api/auth/login''\<rparr>\<rparr>"
proof (intro conjI)
  show "first_by_email [test_user] (username unknown_login) = None"
    by (simp add: eval_user_defs unknown_login_def)
  have "check_request_limit (storage_after_logins 9) 100 login_request
      [limiter_limit (per_minute 10)] = ([login_key \<mapsto> (Suc 9, 160)], None)"
    by (simp add: storage_after_logins_pos check_login_running)
  then show "status_code
        (snd (post_login (storage_after_logins 9) 100 stub_pwd_verify test_settings 100000000
                [test_user] login_request unknown_login)) = 401"
    by (simp add: post_login_admitted login_def eval_user_defs unknown_login_def
        http_401_response)
  have "check_request_limit (storage_after_logins 10) 100 login_request
      [limiter_limit (per_minute 10)] = ([login_key \<mapsto> (Suc 10, 160)], Some (per_minute 10))"
    by (simp add: storage_after_logins_pos check_login_running)
  then show "status_code
        (snd (post_login (storage_after_logins 10) 100 stub_pwd_verify test_settings 100000000
                [test_user] login_request unknown_login)) = 429"
    by (simp add: post_login_limited rate_limit_exceeded_handler_def)
  have "check_request_limit Map.empty 100 login_request [limiter_limit (per_minute 10)]
      = ([login_key \<mapsto> (Suc 0, 160)], None)"
    by (simp add: check_login_fresh)
  moreover have "create_access_token long_lived_settings 100000000
      [(''sub'', JStr ''test@example.com'')] None = Inl OverflowError"
    by (simp add: create_access_token_def long_lived_settings_def eval_time_defs)
  ultimately show "snd (post_login Map.empty 100 stub_pwd_verify long_lived_settings 100000000
             [test_user] login_request
             \<lparr>username = ''test@example.com'', password = ''testpassword123''\<rparr>)
      = \<lparr>status_code = 500,
         content = ErrorContent
           \<lparr>error = ''INTERNAL_SERVER_ERROR'', message = ''An unexpected error occurred'',
            details = None, path = ''/api/auth/login''\<rparr>\<rparr>"
    by (simp add: post_login_admitted login_def eval_user_defs handle_exception_def
        general_exception_handler_def url_path_login_request_eq)
qed

section \<open>Password verification\<close>

lemma verify_password_iff:
  "verify_password pwd_verify plain hashed \<longleftrightarrow> pwd_verify plain hashed = Inr True"
  by (cases "pwd_verify plain hashed") (simp_all add: verify_password_def)

lemma verify_password_raises:
  "pwd_verify plain hashed = Inl e \<Longrightarrow> \<not> verify_password pwd_verify plain hashed"
  by (simp add: verify_password_def)

lemma verify_password_rejects:
  "pwd_verify plain hashed = Inr False \<Longrightarrow> \<not> verify_password pwd_verify plain hashed"
  by (simp add: verify_password_def)

lemma post_login_same_login:
  "login pwd_verify st now db form_data = login pwd_verify' st now db form_data \<Longrightarrow>
     post_login s t pwd_verify st now db req form_data
       = post_login s t pwd_verify' st now db req form_data"
  unfolding post_login_def by (simp only:)

text \<open>
  C8. \<open>verify_password\<close> is a total function into the booleans: whatever the password
  library does on a plaintext and a hash string, it returns. It is true exactly when the
  library returned true; when the library raised it is false. A caller cannot tell the
  two failures apart: for a stored user, \<open>login\<close> and \<open>POST /auth/login\<close> give the same
  result, the 401 of a wrong password, whether the library raised on the stored hash or
  rejected the password.
\<close>

theorem verify_password_fail_closed:
  "(verify_password pwd_verify plain hashed \<longleftrightarrow> pwd_verify plain hashed = Inr True)
   \<and> (pwd_verify plain hashed = Inl e \<longrightarrow> verify_password pwd_verify plain hashed = False)
   \<and> (first_by_email db (username form_data) = Some u
        \<and> pwd_verify (password form_data) (hashed_password u) = Inl e
        \<and> pwd_verify' (password form_data) (hashed_password u) = Inr False \<longrightarrow>
        login pwd_verify st now db form_data
          = Inl (HTTPException 401 ''Incorrect email or password'' [])
        \<and> login pwd_verify st now db form_data = login pwd_verify' st now db form_data
        \<and> post_login s t pwd_verify st now db req form_data
            = post_login s t pwd_verify' st now db req form_data)"
proof (intro conjI impI)
  show "verify_password pwd_verify plain hashed \<longleftrightarrow> pwd_verify plain hashed = Inr True"
    by (rule verify_password_iff)
next
  assume "pwd_verify plain hashed = Inl e"
  then show "verify_password pwd_verify plain hashed = False"
    by (simp add: verify_password_raises)
next
  assume a: "first_by_email db (username form_data) = Some u
      \<and> pwd_verify (password form_data) (hashed_password u) = Inl e
      \<and> pwd_verify' (password form_data) (hashed_password u) = Inr False"
  have l: "login pwd_verify st now db form_data
      = Inl (HTTPException 401 ''Incorrect email or password'' [])"
    using a by (simp add: login_wrong_password verify_password_raises)
  have l': "login pwd_verify' st now db form_data
      = Inl (HTTPException 401 ''Incorrect email or password'' [])"
    using a by (simp add: login_wrong_password verify_password_rejects)
  show "login pwd_verify st now db form_data
      = Inl (HTTPException 401 ''Incorrect email or password'' [])"
    by (rule l)
  show same: "login pwd_verify st now db form_data = login pwd_verify' st now db form_data"
    by (simp add: l l')
  show "post_login s t pwd_verify st now db req form_data
      = post_login s t pwd_verify' st now db req form_data"
    using same by (rule post_login_same_login)
qed

theorem verify_password_fail_closed_witness:
  "stub_pwd_verify ''password123'' ''not-a-bcrypt-hash''
     = Inl (PyException ''hash could not be identified'')
   \<and> verify_password stub_pwd_verify ''password123'' ''not-a-bcrypt-hash'' = False
   \<and> login stub_pwd_verify test_settings 100000000 [test_user, legacy_user]
        \<lparr>username = ''legacy@example.com'', password = ''password123''\<rparr>
      = Inl (HTTPException 401 ''Incorrect email or password'' [])
   \<and> login stub_pwd_verify test_settings 100000000 [test_user, legacy_user]
        \<lparr>username = ''legacy@example.com'', password = ''password123''\<rparr>
      = login never_verify test_settings 100000000 [test_user, legacy_user]
          \<lparr>username = ''legacy@example.com'', password = ''password123''\<rparr>"
proof -
  have raises: "stub_pwd_verify ''password123'' ''not-a-bcrypt-hash''
      = Inl (PyException ''hash could not be identified'')"
    by (simp add: stub_pwd_verify_def)
  have h: "first_by_email [test_user, legacy_user]
        (username \<lparr>username = ''legacy@example.com'', password = ''password123''\<rparr>)
        = Some legacy_user
      \<and> stub_pwd_verify
          (password \<lparr>username = ''legacy@example.com'', password = ''password123''\<rparr>)
          (hashed_password legacy_user) = Inl (PyException ''hash could not be identified'')
      \<and> never_verify
          (password \<lparr>username = ''legacy@example.com'', password = ''password123''\<rparr>)
          (hashed_password legacy_user) = Inr False"
    by (simp add: first_by_email_def test_user_def legacy_user_def stub_pwd_verify_def
        never_verify_def)
  note t = verify_password_fail_closed [where pwd_verify = stub_pwd_verify
      and plain = "''password123''" and hashed = "''not-a-bcrypt-hash''"
      and e = "PyException ''hash could not be identified''"
      and db = "[test_user, legacy_user]" and u = legacy_user and pwd_verify' = never_verify
      and form_data = "\<lparr>username = ''legacy@example.com'', password = ''password123''\<rparr>"
      and st = test_settings and now = 100000000 and s = Map.empty and t = 100
      and req = login_request]
  have c2: "verify_password stub_pwd_verify ''password123'' ''not-a-bcrypt-hash'' = False"
    by (rule t [THEN conjunct2, THEN conjunct1, THEN mp, OF raises])
  have c3: "login stub_pwd_verify test_settings 100000000 [test_user, legacy_user]
        \<lparr>username = ''legacy@example.com'', password = ''password123''\<rparr>
      = Inl (HTTPException 401 ''Incorrect email or password'' [])"
    by (rule t [THEN conjunct2, THEN conjunct2, THEN mp, OF h, THEN conjunct1])
  have c4: "login stub_pwd_verify test_settings 100000000 [test_user, legacy_user]
        \<lparr>username = ''legacy@example.com'', password = ''password123''\<rparr>
      = login never_verify test_settings 100000000 [test_user, legacy_user]
          \<lparr>username = ''legacy@example.com'', password = ''password123''\<rparr>"
    by (rule t [THEN conjunct2, THEN conjunct2, THEN mp, OF h, THEN conjunct2, THEN conjunct1])
  from raises c2 c3 c4 show ?thesis
    by (intro conjI)
qed

section \<open>The rate-limit identity\<close>

lemma str_int_1: "str_int 1 = ''1''"
  by (simp add: str_int_def str_nat_Suc_0)

text \<open>
  C9. \<open>get_client_identifier\<close> returns \<open>user:<id>\<close> when a principal is stored on the
  request, which is what \<open>get_current_user\<close> leaves behind when it succeeds on a request,
  and \<open>ip:<remote-address>\<close> otherwise, the remote address being the peer's host when
  the request has one.
\<close>

theorem client_identifier_user_or_ip:
  "(state_user req = Some u \<longrightarrow> get_client_identifier req = ''user:'' @ str_int (id' u))
   \<and> (state_user req = None \<longrightarrow> get_client_identifier req = ''ip:'' @ get_remote_address req)
   \<and> (state_user req = None \<and> client_host req = Some h \<and> h \<noteq> [] \<longrightarrow>
        get_client_identifier req = ''ip:'' @ h)
   \<and> (get_current_user st now tok db (Some req) = Inr (u, Some req') \<longrightarrow>
        get_client_identifier req' = ''user:'' @ str_int (id' u))"
proof (intro conjI impI)
  assume "state_user req = Some u"
  then show "get_client_identifier req = ''user:'' @ str_int (id' u)"
    by (simp add: get_client_identifier_def)
next
  assume "state_user req = None"
  then show "get_client_identifier req = ''ip:'' @ get_remote_address req"
    by (simp add: get_client_identifier_def)
next
  assume "state_user req = None \<and> client_host req = Some h \<and> h \<noteq> []"
  then show "get_client_identifier req = ''ip:'' @ h"
    by (simp add: get_client_identifier_def get_remote_address_def)
next
  assume "get_current_user st now tok db (Some req) = Inr (u, Some req')"
  then have "req' = req\<lparr>state_user := Some u\<rparr>"
    by (auto simp: get_current_user_def split: option.splits)
  then show "get_client_identifier req' = ''user:'' @ str_int (id' u)"
    by (simp add: get_client_identifier_def)
qed

theorem client_identifier_user_or_ip_witness:
  "get_client_identifier (test_request\<lparr>state_user := Some test_user\<rparr>) = ''user:1''
   \<and> get_client_identifier test_request = ''ip:203.0.113.7''
   \<and> get_current_user test_settings 100
        (test_token [(''sub'', JStr ''test@example.com''), (''exp'', JInt 1900),
                     (''iat'', JInt 100)])
        [test_user] (Some test_request)
      = Inr (test_user, Some (test_request\<lparr>state_user := Some test_user\<rparr>))"
proof -
  let ?tok = "test_token
      [(''sub'', JStr ''test@example.com''), (''exp'', JInt 1900), (''iat'', JInt 100)]"
  have resolved: "get_current_user test_settings 100 ?tok [test_user] (Some test_request)
      = Inr (test_user, Some (test_request\<lparr>state_user := Some test_user\<rparr>))"
    using get_current_user_found [of test_settings 100 ?tok "TokenData ''test@example.com''"
        "[test_user]" test_user "Some test_request"]
    by (simp add: fresh_token_decodes first_by_email_def test_user_def)
  have anon: "state_user test_request = None \<and> client_host test_request = Some ''203.0.113.7''
      \<and> ''203.0.113.7'' \<noteq> []"
    by (simp add: test_request_def)
  have c1: "get_client_identifier (test_request\<lparr>state_user := Some test_user\<rparr>)
      = ''user:'' @ str_int (id' test_user)"
    by (rule client_identifier_user_or_ip [where req = test_request and u = test_user
        and h = "''203.0.113.7''" and st = test_settings and now = 100 and tok = ?tok
        and db = "[test_user]" and req' = "test_request\<lparr>state_user := Some test_user\<rparr>",
        THEN conjunct2, THEN conjunct2, THEN conjunct2, THEN mp, OF resolved])
  have c2: "get_client_identifier test_request = ''ip:'' @ ''203.0.113.7''"
    by (rule client_identifier_user_or_ip [where req = test_request and u = test_user
        and h = "''203.0.113.7''" and st = test_settings and now = 100 and tok = ?tok
        and db = "[test_user]" and req' = "test_request\<lparr>state_user := Some test_user\<rparr>",
        THEN conjunct2, THEN conjunct2, THEN conjunct1, THEN mp, OF anon])
  have id: "str_int (id' test_user) = ''1''"
    by (simp add: test_user_def str_int_1)
  from c1 c2 resolved show ?thesis
    by (simp add: id)
qed

section \<open>The fixed window\<close>

lemma check_fresh:
  assumes "url_path req \<noteq> []" and "s (key_for item [get_client_identifier req, url_path req]) = None"
  shows "check_request_limit s t req [limiter_limit item]
    = (s(key_for item [get_client_identifier req, url_path req]
          \<mapsto> (Suc 0, t + real (get_expiry item))),
       if Suc 0 \<le> amount item then None else Some item)"
  using assms by (simp add: check_request_limit_single hit_fresh)


lemma check_running:
  assumes "url_path req \<noteq> []"
    and "s (key_for item [get_client_identifier req, url_path req]) = Some (c, e)"
    and "t < e" and "0 < c"
  shows "check_request_limit s t req [limiter_limit item]
    = (s(key_for item [get_client_identifier req, url_path req] \<mapsto> (Suc c, e)),
       if Suc c \<le> amount item then None else Some item)"
  using assms by (simp add: check_request_limit_single hit_running)


lemma get_expiry_per_minute_real: "real (get_expiry (per_minute n)) = 60"
  by (simp add: get_expiry_per_minute)

section \<open>Registration\<close>

lemma http_400_response:
  "handle_exception req (HTTPException 400 detail headers) =
     \<lparr>status_code = 400,
      content = ErrorContent
        \<lparr>error = ''HTTP_400'', message = detail, details = None, path = url_path req\<rparr>\<rparr>"
  by (simp add: handle_exception_def http_exception_handler_def str_nat_400)

lemma database_error_response:
  "handle_exception req (SQLAlchemyError e) =
     \<lparr>status_code = 500,
      content = ErrorContent
        \<lparr>error = ''DATABASE_ERROR'', message = ''A database error occurred'', details = None,
         path = url_path req\<rparr>\<rparr>"
  by (simp add: handle_exception_def database_exception_handler_def)

lemma general_error_response:
  "handle_exception req (OtherException e) =
     \<lparr>status_code = 500,
      content = ErrorContent
        \<lparr>error = ''INTERNAL_SERVER_ERROR'', message = ''An unexpected error occurred'',
         details = None, path = url_path req\<rparr>\<rparr>"
  by (simp add: handle_exception_def general_exception_handler_def)

lemma register_duplicate:
  "first_by_email db (uc_email user_in) = Some existing \<Longrightarrow>
     register pwd_hash db between user_in
       = (db, Inl (HTTPException 400 ''Email already registered'' []))"
  by (simp add: register_def)

lemma register_hash_raises:
  "first_by_email db (uc_email user_in) = None \<Longrightarrow> pwd_hash (uc_password user_in) = Inl e \<Longrightarrow>
     register pwd_hash db between user_in = (db, Inl (OtherException e))"
  by (simp add: register_def get_password_hash_def)

lemma register_integrity_error:
  "first_by_email db (uc_email user_in) = None \<Longrightarrow>
   pwd_hash (uc_password user_in) = Inr hashed \<Longrightarrow>
   uc_email user_in \<in> email ` set between \<Longrightarrow>
     register pwd_hash db between user_in
       = (db @ between, Inl (SQLAlchemyError IntegrityError))"
  by (simp add: register_def get_password_hash_def db_add_commit_def User_def)

lemma db_add_commit_new:
  "email row \<notin> email ` set db \<Longrightarrow>
     db_add_commit db row = Inr (db @ [row\<lparr>id' := next_id db\<rparr>], row\<lparr>id' := next_id db\<rparr>)"
  by (simp add: db_add_commit_def Let_def)

lemma register_new:
  assumes "first_by_email db (uc_email user_in) = None"
    and "pwd_hash (uc_password user_in) = Inr hashed"
    and "uc_email user_in \<notin> email ` set between"
  shows "register pwd_hash db between user_in
       = (db @ between @
            [\<lparr>id' = next_id (db @ between), email = uc_email user_in, hashed_password = hashed,
              full_name = uc_full_name user_in, is_active = True, is_superuser = False\<rparr>],
          Inr \<lparr>id' = next_id (db @ between), email = uc_email user_in, hashed_password = hashed,
               full_name = uc_full_name user_in, is_active = True, is_superuser = False\<rparr>)"
proof -
  from assms(1) have "uc_email user_in \<notin> email ` set db"
    by (simp add: first_by_email_None_iff)
  with assms(3) have "email (User (uc_email user_in) hashed (uc_full_name user_in) True False)
      \<notin> email ` set (db @ between)"
    by (auto simp: User_def)
  then have "db_add_commit (db @ between)
      (User (uc_email user_in) hashed (uc_full_name user_in) True False)
      = Inr (db @ between @
               [\<lparr>id' = next_id (db @ between), email = uc_email user_in,
                 hashed_password = hashed, full_name = uc_full_name user_in,
                 is_active = True, is_superuser = False\<rparr>],
             \<lparr>id' = next_id (db @ between), email = uc_email user_in,
              hashed_password = hashed, full_name = uc_full_name user_in,
              is_active = True, is_superuser = False\<rparr>)"
    by (simp add: db_add_commit_new User_def)
  with assms(1,2) show ?thesis
    by (simp add: register_def get_password_hash_def)
qed

lemma post_register_limited:
  "check_request_limit s t req [limiter_limit (per_minute 5)] = (s', Some failed) \<Longrightarrow>
     post_register s t pwd_hash db between req user_in
       = (s', db, rate_limit_exceeded_handler req failed)"
  by (simp add: post_register_def handle_exception_def)

lemma post_register_admitted:
  "check_request_limit s t req [limiter_limit (per_minute 5)] = (s', None) \<Longrightarrow>
     post_register s t pwd_hash db between req user_in =
       (case register pwd_hash db between user_in of
          (db', Inl e) \<Rightarrow> (s', db', handle_exception req e)
        | (db', Inr u) \<Rightarrow>
            (s', db', \<lparr>status_code = 201, content = UserContent (to_user_response u)\<rparr>))"
  by (simp add: post_register_def)

lemma fst_post_register:
  "fst (post_register s t pwd_hash db between req user_in)
     = fst (check_request_limit s t req [limiter_limit (per_minute 5)])"
  by (simp add: post_register_def split: prod.splits option.splits sum.splits)

text \<open>
  C7, as the code has it. \<open>POST /auth/register\<close> stands behind its rate limit of five
  requests per minute and client: a request beyond the limit is answered 429 and writes
  nothing. For a request the limit admits: an email is present in the store exactly when
  some row carries that very string, and then the answer is 400 with the message
  \<open>Email already registered\<close> and the table is left as it was; otherwise, when the
  password hasher returns a hash and no other request committed the same email in the
  meantime, the table grows by exactly one row, with a fresh key, the email, the hash, the
  full name, \<open>is_active\<close> true and \<open>is_superuser\<close> false, and the answer is 201 with
  the public representation of that row, which has no field for the hash and does not
  depend on it.
\<close>

theorem register_protocol:
  "(check_request_limit s t req [limiter_limit (per_minute 5)] = (s', Some failed) \<longrightarrow>
      fst (post_register s t pwd_hash db between req user_in) = s'
      \<and> fst (snd (post_register s t pwd_hash db between req user_in)) = db
      \<and> status_code (snd (snd (post_register s t pwd_hash db between req user_in))) = 429)
   \<and> (first_by_email db (uc_email user_in) = None \<longleftrightarrow> uc_email user_in \<notin> email ` set db)
   \<and> (check_request_limit s t req [limiter_limit (per_minute 5)] = (s', None) \<longrightarrow>
        (first_by_email db (uc_email user_in) = Some existing \<longrightarrow>
           post_register s t pwd_hash db between req user_in
             = (s', db,
                \<lparr>status_code = 400,
                 content = ErrorContent
                   \<lparr>error = ''HTTP_400'', message = ''Email already registered'',
                    details = None, path = url_path req\<rparr>\<rparr>))
        \<and> (first_by_email db (uc_email user_in) = None
             \<and> pwd_hash (uc_password user_in) = Inr hashed
             \<and> uc_email user_in \<notin> email ` set between \<longrightarrow>
           post_register s t pwd_hash db between req user_in
             = (s',
                db @ between @
                  [\<lparr>id' = next_id (db @ between), email = uc_email user_in,
                    hashed_password = hashed, full_name = uc_full_name user_in,
                    is_active = True, is_superuser = False\<rparr>],
                \<lparr>status_code = 201,
                 content = UserContent
                   \<lparr>r_id = next_id (db @ between), r_email = uc_email user_in,
                    r_full_name = uc_full_name user_in, r_is_active = True,
                    r_is_superuser = False\<rparr>\<rparr>)
           \<and> next_id (db @ between) \<notin> id' ` set (db @ between)))
   \<and> to_user_response (u\<lparr>hashed_password := h\<rparr>) = to_user_response u"
proof (intro conjI impI)
  assume "check_request_limit s t req [limiter_limit (per_minute 5)] = (s', Some failed)"
  then have "post_register s t pwd_hash db between req user_in
      = (s', db, rate_limit_exceeded_handler req failed)"
    by (rule post_register_limited)
  then show "fst (post_register s t pwd_hash db between req user_in) = s'"
    and "fst (snd (post_register s t pwd_hash db between req user_in)) = db"
    and "status_code (snd (snd (post_register s t pwd_hash db between req user_in))) = 429"
    by (simp_all add: rate_limit_exceeded_handler_def)
next
  show "first_by_email db (uc_email user_in) = None \<longleftrightarrow> uc_email user_in \<notin> email ` set db"
    by (rule first_by_email_None_iff)
next
  assume "check_request_limit s t req [limiter_limit (per_minute 5)] = (s', None)"
    and "first_by_email db (uc_email user_in) = Some existing"
  then show "post_register s t pwd_hash db between req user_in
      = (s', db,
         \<lparr>status_code = 400,
          content = ErrorContent
            \<lparr>error = ''HTTP_400'', message = ''Email already registered'',
             details = None, path = url_path req\<rparr>\<rparr>)"
    by (simp add: post_register_admitted register_duplicate http_400_response)
next
  assume adm: "check_request_limit s t req [limiter_limit (per_minute 5)] = (s', None)"
    and a: "first_by_email db (uc_email user_in) = None
      \<and> pwd_hash (uc_password user_in) = Inr hashed
      \<and> uc_email user_in \<notin> email ` set between"
  from a have "register pwd_hash db between user_in
       = (db @ between @
            [\<lparr>id' = next_id (db @ between), email = uc_email user_in, hashed_password = hashed,
              full_name = uc_full_name user_in, is_active = True, is_superuser = False\<rparr>],
          Inr \<lparr>id' = next_id (db @ between), email = uc_email user_in, hashed_password = hashed,
               full_name = uc_full_name user_in, is_active = True, is_superuser = False\<rparr>)"
    by (simp add: register_new)
  with adm show "post_register s t pwd_hash db between req user_in
      = (s',
         db @ between @
           [\<lparr>id' = next_id (db @ between), email = uc_email user_in,
             hashed_password = hashed, full_name = uc_full_name user_in,
             is_active = True, is_superuser = False\<rparr>],
         \<lparr>status_code = 201,
          content = UserContent
            \<lparr>r_id = next_id (db @ between), r_email = uc_email user_in,
             r_full_name = uc_full_name user_in, r_is_active = True,
             r_is_superuser = False\<rparr>\<rparr>)"
    by (simp add: post_register_admitted to_user_response_def)
next
  have "i \<le> foldr max (map id' rows) 0" if "i \<in> id' ` set rows" for i and rows :: "user list"
    using that by (induction rows) auto
  then show "next_id (db @ between) \<notin> id' ` set (db @ between)"
    unfolding next_id_def by fastforce
next
  show "to_user_response (u\<lparr>hashed_password := h\<rparr>) = to_user_response u"
    by (simp add: to_user_response_def)
qed

lemma client_identifier_register_request:
  "get_client_identifier register_request = ''ip:203.0.113.7''"
  by (simp add: get_client_identifier_def get_remote_address_def register_request_def
      test_request_def)

lemma url_path_register_request_eq: "url_path register_request = ''/api/auth/register''"
  by (simp add: register_request_def)

lemma url_path_register_request: "url_path register_request \<noteq> []"
  by (simp add: register_request_def)

lemma key_for_register_request:
  "key_for (per_minute 5) [get_client_identifier register_request, url_path register_request]
     = register_key"
  by (simp add: key_for_def per_minute_def client_identifier_register_request
      url_path_register_request_eq granularity_name_def str_nat_5 str_nat_Suc_0
      register_key_def)

lemma check_register_fresh:
  "s register_key = None \<Longrightarrow>
     check_request_limit s 100 register_request [limiter_limit (per_minute 5)]
       = (s(register_key \<mapsto> (Suc 0, 160)), None)"
  using check_fresh [of register_request s "per_minute 5" 100]
  by (simp add: url_path_register_request key_for_register_request get_expiry_per_minute
      amount_per_minute)

lemma check_register_running:
  "s register_key = Some (c, 160) \<Longrightarrow> 0 < c \<Longrightarrow>
     check_request_limit s 100 register_request [limiter_limit (per_minute 5)]
       = (s(register_key \<mapsto> (Suc c, 160)), if Suc c \<le> 5 then None else Some (per_minute 5))"
  using check_running [of register_request s "per_minute 5" c 160 100]
  by (simp add: url_path_register_request key_for_register_request amount_per_minute)

lemma storage_after_registrations_Suc:
  "storage_after_registrations (Suc n) = [register_key \<mapsto> (Suc n, 160)]"
proof (induction n)
  case 0
  have "storage_after_registrations (Suc 0)
      = fst (check_request_limit Map.empty 100 register_request [limiter_limit (per_minute 5)])"
    by (simp add: fst_post_register)
  also have "\<dots> = [register_key \<mapsto> (Suc 0, 160)]"
    by (simp add: check_register_fresh)
  finally show ?case .
next
  case (Suc n)
  have "storage_after_registrations (Suc (Suc n))
      = fst (check_request_limit (storage_after_registrations (Suc n)) 100 register_request
               [limiter_limit (per_minute 5)])"
    by (subst storage_after_registrations.simps(2)) (rule fst_post_register)
  also have "\<dots> = [register_key \<mapsto> (Suc (Suc n), 160)]"
    unfolding Suc.IH by (simp add: check_register_running)
  finally show ?case .
qed

lemma storage_after_registrations_pos:
  assumes "0 < n"
  shows "storage_after_registrations n = [register_key \<mapsto> (n, 160)]"
proof (cases n)
  case 0
  with assms show ?thesis by simp
next
  case (Suc m)
  then show ?thesis by (simp only: storage_after_registrations_Suc)
qed

lemma check_register_first:
  "check_request_limit Map.empty 100 register_request [limiter_limit (per_minute 5)]
     = ([register_key \<mapsto> (Suc 0, 160)], None)"
  by (simp add: check_register_fresh)

lemma check_register_sixth:
  "check_request_limit (storage_after_registrations 5) 100 register_request
     [limiter_limit (per_minute 5)]
     = ([register_key \<mapsto> (Suc 5, 160)], Some (per_minute 5))"
  by (simp add: storage_after_registrations_pos check_register_running)

lemma next_id_test_user: "next_id [test_user] = 2"
  by (simp add: next_id_def test_user_def)

theorem register_protocol_witness:
  "post_register Map.empty 100 strict_pwd_hash [test_user] [] register_request new_user_in
     = ([register_key \<mapsto> (Suc 0, 160)], [test_user, new_user],
        \<lparr>status_code = 201,
         content = UserContent
           \<lparr>r_id = 2, r_email = ''newuser@example.com'', r_full_name = Some ''New User'',
            r_is_active = True, r_is_superuser = False\<rparr>\<rparr>)
   \<and> post_register Map.empty 100 strict_pwd_hash [test_user] [] register_request
        duplicate_user_in
     = ([register_key \<mapsto> (Suc 0, 160)], [test_user],
        \<lparr>status_code = 400,
         content = ErrorContent
           \<lparr>error = ''HTTP_400'', message = ''Email already registered'', details = None,
            path = ''/api/auth/register''\<rparr>\<rparr>)
   \<and> status_code
        (snd (snd (post_register (storage_after_registrations 5) 100 strict_pwd_hash
                     [test_user] [] register_request new_user_in))) = 429"
proof -
  have fresh: "first_by_email [test_user] (uc_email new_user_in) = None
      \<and> strict_pwd_hash (uc_password new_user_in) = Inr ''$2b$securepassword123''
      \<and> uc_email new_user_in \<notin> email ` set []"
    by (simp add: first_by_email_def test_user_def new_user_in_def strict_pwd_hash_def)
  have dup: "first_by_email [test_user] (uc_email duplicate_user_in) = Some test_user"
    by (simp add: first_by_email_def test_user_def duplicate_user_in_def)
  have c1: "post_register Map.empty 100 strict_pwd_hash [test_user] [] register_request
        new_user_in
      = ([register_key \<mapsto> (Suc 0, 160)],
         [test_user] @ [] @
           [\<lparr>id' = next_id ([test_user] @ []), email = uc_email new_user_in,
             hashed_password = ''$2b$securepassword123'', full_name = uc_full_name new_user_in,
             is_active = True, is_superuser = False\<rparr>],
         \<lparr>status_code = 201,
          content = UserContent
            \<lparr>r_id = next_id ([test_user] @ []), r_email = uc_email new_user_in,
             r_full_name = uc_full_name new_user_in, r_is_active = True,
             r_is_superuser = False\<rparr>\<rparr>)"
    by (rule register_protocol [where s = Map.empty and t = 100 and req = register_request
        and s' = "[register_key \<mapsto> (Suc 0, 160)]" and failed = "per_minute 5"
        and pwd_hash = strict_pwd_hash and db = "[test_user]" and between = "[]"
        and user_in = new_user_in and existing = test_user
        and hashed = "''$2b$securepassword123''" and u = test_user and h = "[]",
        THEN conjunct2, THEN conjunct2, THEN conjunct1, THEN mp, OF check_register_first,
        THEN conjunct2, THEN mp, OF fresh, THEN conjunct1])
  have c2: "post_register Map.empty 100 strict_pwd_hash [test_user] [] register_request
        duplicate_user_in
      = ([register_key \<mapsto> (Suc 0, 160)], [test_user],
         \<lparr>status_code = 400,
          content = ErrorContent
            \<lparr>error = ''HTTP_400'', message = ''Email already registered'', details = None,
             path = url_path register_request\<rparr>\<rparr>)"
    by (rule register_protocol [where s = Map.empty and t = 100 and req = register_request
        and s' = "[register_key \<mapsto> (Suc 0, 160)]" and failed = "per_minute 5"
        and pwd_hash = strict_pwd_hash and db = "[test_user]" and between = "[]"
        and user_in = duplicate_user_in and existing = test_user
        and hashed = "''$2b$password123''" and u = test_user and h = "[]",
        THEN conjunct2, THEN conjunct2, THEN conjunct1, THEN mp, OF check_register_first,
        THEN conjunct1, THEN mp, OF dup])
  have c3: "status_code
        (snd (snd (post_register (storage_after_registrations 5) 100 strict_pwd_hash
                     [test_user] [] register_request new_user_in))) = 429"
    by (rule register_protocol [where s = "storage_after_registrations 5" and t = 100
        and req = register_request and s' = "[register_key \<mapsto> (Suc 5, 160)]"
        and failed = "per_minute 5" and pwd_hash = strict_pwd_hash and db = "[test_user]"
        and between = "[]" and user_in = new_user_in and existing = test_user
        and hashed = "''$2b$securepassword123''" and u = test_user and h = "[]",
        THEN conjunct1, THEN mp, OF check_register_sixth, THEN conjunct2, THEN conjunct2])
  from c1 c2 c3 show ?thesis
    by (simp add: next_id_test_user new_user_in_def new_user_def url_path_register_request_eq)
qed

text \<open>
  C7, as the specification states it, fails. After five registrations from one client
  within one minute, a sixth with an email no row has is answered 429 and nothing is
  written. A registration whose password holds a NUL character, which the hasher refuses,
  is answered 500 and nothing is written. And a registration whose email another request
  committed between its query and its commit is answered 500 and writes nothing either.
\<close>

theorem register_protocol_counterexample:
  "first_by_email [test_user] (uc_email new_user_in) = None
   \<and> post_register (storage_after_registrations 5) 100 strict_pwd_hash [test_user] []
        register_request new_user_in
      = ([register_key \<mapsto> (Suc 5, 160)], [test_user],
         \<lparr>status_code = 429, content = RateLimitContent ''Rate limit exceeded: 5 per 1 minute''\<rparr>)
   \<and> first_by_email [test_user] (uc_email nul_password_in) = None
   \<and> snd (post_register Map.empty 100 strict_pwd_hash [test_user] [] register_request
             nul_password_in)
      = ([test_user],
         \<lparr>status_code = 500,
          content = ErrorContent
            \<lparr>error = ''INTERNAL_SERVER_ERROR'', message = ''An unexpected error occurred'',
             details = None, path = ''/api/auth/register''\<rparr>\<rparr>)
   \<and> status_code
        (snd (snd (post_register Map.empty 100 strict_pwd_hash [test_user] [new_user]
                     register_request new_user_in))) = 500"
proof (intro conjI)
  show "first_by_email [test_user] (uc_email new_user_in) = None"
    by (simp add: first_by_email_def test_user_def new_user_in_def)
  show "post_register (storage_after_registrations 5) 100 strict_pwd_hash [test_user] []
        register_request new_user_in
      = ([register_key \<mapsto> (Suc 5, 160)], [test_user],
         \<lparr>status_code = 429, content = RateLimitContent ''Rate limit exceeded: 5 per 1 minute''\<rparr>)"
    using check_register_sixth
    by (simp add: post_register_limited rate_limit_exceeded_handler_def limit_str_def
        per_minute_def granularity_name_def str_nat_5 str_nat_Suc_0)
  show nul: "first_by_email [test_user] (uc_email nul_password_in) = None"
    by (simp add: first_by_email_def test_user_def nul_password_in_def)
  have "strict_pwd_hash (uc_password nul_password_in) = Inl (PyException ''password contains NUL'')"
    by (simp add: strict_pwd_hash_def nul_password_in_def)
  with nul show "snd (post_register Map.empty 100 strict_pwd_hash [test_user] []
             register_request nul_password_in)
      = ([test_user],
         \<lparr>status_code = 500,
          content = ErrorContent
            \<lparr>error = ''INTERNAL_SERVER_ERROR'', message = ''An unexpected error occurred'',
             details = None, path = ''/api/auth/register''\<rparr>\<rparr>)"
    using check_register_first
    by (simp add: post_register_admitted register_hash_raises general_error_response
        url_path_register_request_eq)
  have "first_by_email [test_user] (uc_email new_user_in) = None"
    and "strict_pwd_hash (uc_password new_user_in) = Inr ''$2b$securepassword123''"
    and "uc_email new_user_in \<in> email ` set [new_user]"
    by (simp_all add: first_by_email_def test_user_def new_user_in_def strict_pwd_hash_def
        new_user_def)
  then have "register strict_pwd_hash [test_user] [new_user] new_user_in
      = ([test_user] @ [new_user], Inl (SQLAlchemyError IntegrityError))"
    by (rule register_integrity_error)
  then show "status_code
        (snd (snd (post_register Map.empty 100 strict_pwd_hash [test_user] [new_user]
                     register_request new_user_in))) = 500"
    using check_register_first
    by (simp add: post_register_admitted database_error_response)
qed

section \<open>A uniqueness violation at the insert\<close>

text \<open>
  C3, as the code has it. When the insert of \<open>register\<close> fails with a uniqueness
  violation, its pre-check having found no row with the email and another request having
  committed one since, nothing turns the failure into the 400 of the pre-check:
  \<open>register\<close> raises the \<open>IntegrityError\<close>, the table stays as the other request left
  it, and the route answers with the database error handler's 500 \<open>DATABASE_ERROR\<close>.
\<close>

theorem register_integrity_error_500:
  "first_by_email db (uc_email user_in) = None
   \<and> pwd_hash (uc_password user_in) = Inr hashed
   \<and> uc_email user_in \<in> email ` set between \<longrightarrow>
     register pwd_hash db between user_in = (db @ between, Inl (SQLAlchemyError IntegrityError))
     \<and> (check_request_limit s t req [limiter_limit (per_minute 5)] = (s', None) \<longrightarrow>
          post_register s t pwd_hash db between req user_in
            = (s', db @ between,
               \<lparr>status_code = 500,
                content = ErrorContent
                  \<lparr>error = ''DATABASE_ERROR'', message = ''A database error occurred'',
                   details = None, path = url_path req\<rparr>\<rparr>))"
proof (intro impI conjI)
  assume a: "first_by_email db (uc_email user_in) = None
      \<and> pwd_hash (uc_password user_in) = Inr hashed
      \<and> uc_email user_in \<in> email ` set between"
  then show r: "register pwd_hash db between user_in
      = (db @ between, Inl (SQLAlchemyError IntegrityError))"
    by (simp add: register_integrity_error)
  assume "check_request_limit s t req [limiter_limit (per_minute 5)] = (s', None)"
  with r show "post_register s t pwd_hash db between req user_in
      = (s', db @ between,
         \<lparr>status_code = 500,
          content = ErrorContent
            \<lparr>error = ''DATABASE_ERROR'', message = ''A database error occurred'',
             details = None, path = url_path req\<rparr>\<rparr>)"
    by (simp add: post_register_admitted database_error_response)
qed

theorem register_integrity_error_500_witness:
  "register strict_pwd_hash [test_user] [new_user] new_user_in
     = ([test_user, new_user], Inl (SQLAlchemyError IntegrityError))
   \<and> post_register Map.empty 100 strict_pwd_hash [test_user] [new_user] register_request
        new_user_in
     = ([register_key \<mapsto> (Suc 0, 160)], [test_user, new_user],
        \<lparr>status_code = 500,
         content = ErrorContent
           \<lparr>error = ''DATABASE_ERROR'', message = ''A database error occurred'',
            details = None, path = ''/api/auth/register''\<rparr>\<rparr>)"
proof -
  have race: "first_by_email [test_user] (uc_email new_user_in) = None
      \<and> strict_pwd_hash (uc_password new_user_in) = Inr ''$2b$securepassword123''
      \<and> uc_email new_user_in \<in> email ` set [new_user]"
    by (simp add: first_by_email_def test_user_def new_user_in_def strict_pwd_hash_def
        new_user_def)
  note t = register_integrity_error_500 [where db = "[test_user]" and user_in = new_user_in
      and pwd_hash = strict_pwd_hash and hashed = "''$2b$securepassword123''"
      and between = "[new_user]" and s = Map.empty and t = 100 and req = register_request
      and s' = "[register_key \<mapsto> (Suc 0, 160)]", THEN mp, OF race]
  have c1: "register strict_pwd_hash [test_user] [new_user] new_user_in
      = ([test_user] @ [new_user], Inl (SQLAlchemyError IntegrityError))"
    by (rule t [THEN conjunct1])
  have c2: "post_register Map.empty 100 strict_pwd_hash [test_user] [new_user]
        register_request new_user_in
      = ([register_key \<mapsto> (Suc 0, 160)], [test_user] @ [new_user],
         \<lparr>status_code = 500,
          content = ErrorContent
            \<lparr>error = ''DATABASE_ERROR'', message = ''A database error occurred'',
             details = None, path = url_path register_request\<rparr>\<rparr>)"
    by (rule t [THEN conjunct2, THEN mp, OF check_register_first])
  from c1 c2 show ?thesis
    by (simp add: url_path_register_request_eq)
qed

text \<open>
  C3, as the specification states it, fails: the registration of an email that the
  pre-check did not find and that another request committed before the insert is answered
  500, while the same registration against a table that already holds the email is
  answered 400.
\<close>

theorem register_integrity_error_counterexample:
  "status_code
     (snd (snd (post_register Map.empty 100 strict_pwd_hash [test_user] [new_user]
                  register_request new_user_in))) = 500
   \<and> status_code
       (snd (snd (post_register Map.empty 100 strict_pwd_hash [test_user, new_user] []
                    register_request new_user_in))) = 400"
proof (intro conjI)
  have "first_by_email [test_user] (uc_email new_user_in) = None"
    and "strict_pwd_hash (uc_password new_user_in) = Inr ''$2b$securepassword123''"
    and "uc_email new_user_in \<in> email ` set [new_user]"
    by (simp_all add: first_by_email_def test_user_def new_user_in_def strict_pwd_hash_def
        new_user_def)
  then have "register strict_pwd_hash [test_user] [new_user] new_user_in
      = ([test_user] @ [new_user], Inl (SQLAlchemyError IntegrityError))"
    by (rule register_integrity_error)
  then show "status_code
     (snd (snd (post_register Map.empty 100 strict_pwd_hash [test_user] [new_user]
                  register_request new_user_in))) = 500"
    using check_register_first
    by (simp add: post_register_admitted database_error_response)
  have "first_by_email [test_user, new_user] (uc_email new_user_in) = Some new_user"
    by (simp add: first_by_email_def test_user_def new_user_in_def new_user_def)
  then have "register strict_pwd_hash [test_user, new_user] [] new_user_in
      = ([test_user, new_user], Inl (HTTPException 400 ''Email already registered'' []))"
    by (rule register_duplicate)
  then show "status_code
       (snd (snd (post_register Map.empty 100 strict_pwd_hash [test_user, new_user] []
                    register_request new_user_in))) = 400"
    using check_register_first
    by (simp add: post_register_admitted http_400_response)
qed

section \<open>Rate limits\<close>







end
